theory Spec2Isabelle
  imports Main
begin

section \<open>JavaScript values\<close>

text \<open>
  The handlers of \<^verbatim>\<open>MetaMaskProvider.tsx\<close> receive payloads typed \<^verbatim>\<open>any\<close> or
  \<^verbatim>\<open>unknown\<close> and store them in the component state unchanged, so the state holds
  run-time values, not the values of the TypeScript annotations. Numbers are kept to the
  integers (\<open>0\<close> is the only falsy one here).
\<close>

datatype jsval =
    JUndefined
  | JNull
  | JBool bool
  | JNum int
  | JStr string
  | JArr "jsval list"
  | JObj "(string \<times> jsval) list"

datatype js_error = TypeError

text \<open>Truthiness, as used by \<^verbatim>\<open>if (account)\<close>, \<^verbatim>\<open>x || undefined\<close> and \<^verbatim>\<open>a && b\<close>.\<close>

fun truthy :: "jsval \<Rightarrow> bool" where
  "truthy JUndefined = False"
| "truthy JNull = False"
| "truthy (JBool b) = b"
| "truthy (JNum n) = (n \<noteq> 0)"
| "truthy (JStr s) = (s \<noteq> [])"
| "truthy (JArr xs) = True"
| "truthy (JObj kvs) = True"

fun nullish :: "jsval \<Rightarrow> bool" where
  "nullish JUndefined = True"
| "nullish JNull = True"
| "nullish (JBool b) = False"
| "nullish (JNum n) = False"
| "nullish (JStr s) = False"
| "nullish (JArr xs) = False"
| "nullish (JObj kvs) = False"

text \<open>\<^verbatim>\<open>a || b\<close>\<close>

definition js_or :: "jsval \<Rightarrow> jsval \<Rightarrow> jsval" where
  "js_or a b = (if truthy a then a else b)"

text \<open>\<^verbatim>\<open>typeof v\<close>; \<^verbatim>\<open>typeof null\<close> is \<^verbatim>\<open>'object'\<close>, and so is the type of an array.\<close>

fun typeof :: "jsval \<Rightarrow> string" where
  "typeof JUndefined = ''undefined''"
| "typeof JNull = ''object''"
| "typeof (JBool b) = ''boolean''"
| "typeof (JNum n) = ''number''"
| "typeof (JStr s) = ''string''"
| "typeof (JArr xs) = ''object''"
| "typeof (JObj kvs) = ''object''"

text \<open>
  Reading a named property that no prototype defines (\<^verbatim>\<open>chainId\<close>,
  \<^verbatim>\<open>connectionStatus\<close>): an object gives its own property or \<^verbatim>\<open>undefined\<close>, a
  primitive or an array gives \<^verbatim>\<open>undefined\<close>. \<open>own_prop\<close> is the read once the base
  is known not to be nullish.
\<close>

fun own_prop :: "jsval \<Rightarrow> string \<Rightarrow> jsval" where
  "own_prop (JObj kvs) k = (case map_of kvs k of None \<Rightarrow> JUndefined | Some v \<Rightarrow> v)"
| "own_prop v k = JUndefined"

text \<open>\<^verbatim>\<open>v.k\<close>: raises a TypeError on \<^verbatim>\<open>undefined\<close> and \<^verbatim>\<open>null\<close>.\<close>

definition get_prop :: "jsval \<Rightarrow> string \<Rightarrow> js_error + jsval" where
  "get_prop v k = (if nullish v then Inl TypeError else Inr (own_prop v k))"

text \<open>\<^verbatim>\<open>v?.k\<close>: \<^verbatim>\<open>undefined\<close> on a nullish base.\<close>

definition opt_prop :: "jsval \<Rightarrow> string \<Rightarrow> jsval" where
  "opt_prop v k = (if nullish v then JUndefined else own_prop v k)"

text \<open>
  \<^verbatim>\<open>v?.[0]\<close>: the first element of an array, the first character of a string, the
  property \<^verbatim>\<open>"0"\<close> of an object, and \<^verbatim>\<open>undefined\<close> where there is none (JavaScript
  does not raise on an empty array).
\<close>

fun opt_index0 :: "jsval \<Rightarrow> jsval" where
  "opt_index0 (JArr xs) = (case xs of [] \<Rightarrow> JUndefined | x # _ \<Rightarrow> x)"
| "opt_index0 (JStr s) = (case s of [] \<Rightarrow> JUndefined | c # _ \<Rightarrow> JStr [c])"
| "opt_index0 (JObj kvs) = own_prop (JObj kvs) ''0''"
| "opt_index0 v = JUndefined"


section \<open>The wallet SDK, as the component sees it\<close>

text \<open>
  \<^verbatim>\<open>@metamask/sdk\<close> is an import. What the component reads from it is a parameter of
  the model: a snapshot of the SDK object and of its active provider at the moment a
  handler or an effect runs. \<open>providerId\<close> is the identity of the provider object.
\<close>

record SDKProvider =
  providerId :: nat
  selectedAddress :: jsval
  providerChainId :: jsval
  isConnected :: bool

record sdk_env =
  isExtensionActive :: bool
  hasReadOnlyRPCCalls :: bool
  getProvider :: SDKProvider

text \<open>\<^verbatim>\<open>new MetaMaskSDK({...sdkOptions})\<close>: the handle remembers the options it was built from.\<close>

datatype MetaMaskSDK = MetaMaskSDK "(string \<times> jsval) list"

text \<open>
  \<^verbatim>\<open>PROVIDER_UPDATE_TYPE\<close>: the two members the component tests for, and any other
  value the channel may carry.
\<close>

datatype PROVIDER_UPDATE_TYPE = TERMINATE | EXTENSION | OTHER_UPDATE string

fun update_type_value :: "PROVIDER_UPDATE_TYPE \<Rightarrow> jsval" where
  "update_type_value TERMINATE = JStr ''terminate''"
| "update_type_value EXTENSION = JStr ''extension''"
| "update_type_value (OTHER_UPDATE v) = JStr v"

text \<open>Calls made on the SDK that have an effect outside the component.\<close>

datatype sdk_call =
    SdkNew "(string \<times> jsval) list"
  | SdkInit
  | ProviderRequest string "jsval list"

text \<open>A console line: the fixed part of the message and the values printed with it.\<close>

datatype console_entry =
    ConsoleDebug string "jsval list"
  | ConsoleWarn string "jsval list"


section \<open>State of \<^verbatim>\<open>MetaMaskProviderClient\<close>\<close>

text \<open>
  One field for each \<^verbatim>\<open>useState\<close> and for the \<^verbatim>\<open>hasInit\<close> ref, then what the
  component holds outside React: the provider its six listeners are attached to
  (\<open>listeners\<close>), whether \<^verbatim>\<open>onProviderEvent\<close> is attached to the SDK
  (\<open>providerUpdateListener\<close>), whether the promise of \<^verbatim>\<open>init()\<close> is outstanding, the
  accounts whose balance request is in flight, the calls made and the console.
\<close>

record client_state =
  sdk :: "MetaMaskSDK option"
  ready :: bool
  readOnlyCalls :: bool
  connecting :: bool
  connected :: bool
  trigger :: int
  chainId :: jsval
  balance :: jsval
  account :: jsval
  error :: jsval
  provider :: "nat option"
  status :: jsval
  extensionActive :: bool
  hasInit :: bool
  listeners :: "nat option"
  providerUpdateListener :: bool
  initPending :: "MetaMaskSDK option"
  pending :: "jsval list"
  sdk_calls :: "sdk_call list"
  console :: "console_entry list"

definition initial_state :: client_state where
  "initial_state = \<lparr>
     sdk = None, ready = False, readOnlyCalls = False, connecting = False,
     connected = False, trigger = 1, chainId = JUndefined, balance = JUndefined,
     account = JUndefined, error = JUndefined, provider = None, status = JUndefined,
     extensionActive = False, hasInit = False, listeners = None,
     providerUpdateListener = False, initPending = None, pending = [],
     sdk_calls = [], console = [] \<rparr>"

text \<open>\<^verbatim>\<open>if (debug) { console.debug(msg, ...args) }\<close>\<close>

definition debug_log :: "bool \<Rightarrow> string \<Rightarrow> jsval list \<Rightarrow> client_state \<Rightarrow> client_state" where
  "debug_log debug msg args s =
     (if debug then s\<lparr>console := console s @ [ConsoleDebug msg args]\<rparr> else s)"


section \<open>Event handlers\<close>

text \<open>
  Each handler is a closure of the listener effect; what it captures (\<^verbatim>\<open>debug\<close>,
  \<^verbatim>\<open>activeProvider\<close>, \<^verbatim>\<open>sdk\<close>) is an argument here. The setters are batched, so a
  handler is one state update.
\<close>

definition onConnecting :: "bool \<Rightarrow> client_state \<Rightarrow> client_state" where
  "onConnecting debug s =
     (debug_log debug ''MetaMaskProvider::provider on 'connecting' event.'' [] s)
       \<lparr>connected := False, connecting := True, error := JUndefined\<rparr>"

definition onInitialized :: "bool \<Rightarrow> SDKProvider \<Rightarrow> client_state \<Rightarrow> client_state" where
  "onInitialized debug activeProvider s =
     (debug_log debug ''MetaMaskProvider::provider on '_initialized' event.'' [] s)
       \<lparr>connecting := False,
        account := js_or (selectedAddress activeProvider) JUndefined,
        connected := True,
        error := JUndefined\<rparr>"

text \<open>
  \<^verbatim>\<open>onConnect\<close> reads \<^verbatim>\<open>connectParam.chainId\<close> with no guard: on \<^verbatim>\<open>undefined\<close> or
  \<^verbatim>\<open>null\<close> the read raises after the debug line and before any setter. The left
  result is the error with the state at that point.
\<close>

definition onConnect ::
  "bool \<Rightarrow> jsval \<Rightarrow> client_state \<Rightarrow> (js_error \<times> client_state) + client_state" where
  "onConnect debug connectParam s =
     (let s1 = debug_log debug ''MetaMaskProvider::provider on 'connect' event.''
                 [connectParam] s
      in case get_prop connectParam ''chainId'' of
           Inl e \<Rightarrow> Inl (e, s1)
         | Inr currentChainId \<Rightarrow>
             Inr (s1\<lparr>connecting := False, connected := True,
                     chainId := currentChainId, error := JUndefined\<rparr>))"

definition onDisconnect :: "bool \<Rightarrow> jsval \<Rightarrow> client_state \<Rightarrow> client_state" where
  "onDisconnect debug reason s =
     (debug_log debug ''MetaMaskProvider::provider on 'disconnect' event.'' [reason] s)
       \<lparr>connecting := False, connected := False, error := reason\<rparr>"

definition onAccountsChanged :: "bool \<Rightarrow> jsval \<Rightarrow> client_state \<Rightarrow> client_state" where
  "onAccountsChanged debug newAccounts s =
     (debug_log debug ''MetaMaskProvider::provider on 'accountsChanged' event.''
        [newAccounts] s)
       \<lparr>account := opt_index0 newAccounts,
        connected := True, connecting := False, error := JUndefined\<rparr>"

definition onChainChanged :: "bool \<Rightarrow> jsval \<Rightarrow> client_state \<Rightarrow> client_state" where
  "onChainChanged debug networkVersionOrChainId s =
     (let s1 = debug_log debug ''MetaMaskProvider::provider on 'chainChanged' event.''
                 [networkVersionOrChainId] s;
          s2 = (if typeof networkVersionOrChainId = ''object''
                   \<and> truthy (opt_prop networkVersionOrChainId ''chainId'')
                then s1\<lparr>chainId := own_prop networkVersionOrChainId ''chainId''\<rparr>
                else s1\<lparr>chainId := networkVersionOrChainId\<rparr>)
      in s2\<lparr>connected := True, connecting := False, error := JUndefined\<rparr>)"

text \<open>
  \<^verbatim>\<open>onSDKStatusEvent\<close> builds its debug message from
  \<^verbatim>\<open>_serviceStatus.connectionStatus\<close>, so with \<^verbatim>\<open>debug\<close> on a nullish status raises
  before the setter.
\<close>

definition onSDKStatusEvent ::
  "bool \<Rightarrow> jsval \<Rightarrow> client_state \<Rightarrow> (js_error \<times> client_state) + client_state" where
  "onSDKStatusEvent debug serviceStatus s =
     (if debug then
        (case get_prop serviceStatus ''connectionStatus'' of
           Inl e \<Rightarrow> Inl (e, s)
         | Inr cs \<Rightarrow>
             Inr ((debug_log debug ''MetaMaskProvider::sdk on 'service_status' event.''
                     [cs, serviceStatus] s)\<lparr>status := serviceStatus\<rparr>))
      else Inr (s\<lparr>status := serviceStatus\<rparr>))"

text \<open>
  \<^verbatim>\<open>onProviderEvent\<close> reads the provider through \<^verbatim>\<open>sdk.getProvider()\<close> when it
  runs, so it sees the provider that is active then.
\<close>

definition onProviderEvent ::
  "bool \<Rightarrow> sdk_env \<Rightarrow> PROVIDER_UPDATE_TYPE \<Rightarrow> client_state \<Rightarrow> client_state" where
  "onProviderEvent debug env type s =
     (let s1 = debug_log debug ''MetaMaskProvider::sdk on 'provider_update' event.''
                 [update_type_value type] s;
          s2 = (if type = TERMINATE then s1\<lparr>connecting := False\<rparr>
                else if type = EXTENSION then
                  (let extensionProvider = getProvider env;
                       extensionChainId = js_or (providerChainId extensionProvider) JUndefined;
                       extensionAccount = js_or (selectedAddress extensionProvider) JUndefined;
                       s3 = debug_log debug ''[MetaMaskProvider] extensionProvider''
                              [extensionChainId, extensionAccount]
                              (s1\<lparr>connecting := False, connected := True,
                                  error := JUndefined\<rparr>)
                   in s3\<lparr>chainId := extensionChainId, account := extensionAccount\<rparr>)
                else s1)
      in s2\<lparr>trigger := trigger s2 + 1\<rparr>)"


section \<open>Effects\<close>

text \<open>
  An effect reads the values of the render it belongs to (\<open>r\<close>) and queues state
  updates, applied here to \<open>s\<close>. The \<^verbatim>\<open>hasInit\<close> ref is read and written in place.

  The balance effect (dependency \<^verbatim>\<open>account\<close>). The whole chain
  \<^verbatim>\<open>sdk?.getProvider().request(...).then(...).catch(...)\<close> is skipped when \<^verbatim>\<open>sdk\<close>
  is undefined.
\<close>

definition balance_effect :: "bool \<Rightarrow> client_state \<Rightarrow> client_state \<Rightarrow> client_state" where
  "balance_effect debug r s =
     (if truthy (account r) then
        (if debug then
           (case sdk r of
              None \<Rightarrow> s
            | Some k \<Rightarrow>
                s\<lparr>pending := pending s @ [account r],
                  sdk_calls := sdk_calls s
                    @ [ProviderRequest ''eth_getBalance'' [account r, JStr ''latest'']]\<rparr>)
         else s)
      else s\<lparr>balance := JUndefined\<rparr>)"

text \<open>The two continuations of the balance request for account \<open>a\<close>.\<close>

definition balance_then :: "bool \<Rightarrow> jsval \<Rightarrow> jsval \<Rightarrow> client_state \<Rightarrow> client_state" where
  "balance_then debug a accountBalance s =
     (debug_log debug ''[MetamaskProvider] balance of'' [a, accountBalance] s)
       \<lparr>balance := accountBalance\<rparr>"

definition balance_catch :: "jsval \<Rightarrow> jsval \<Rightarrow> client_state \<Rightarrow> client_state" where
  "balance_catch a err s =
     s\<lparr>console := console s
          @ [ConsoleWarn ''[MetamaskProvider] error retrieving balance of'' [a, err]]\<rparr>"

text \<open>The initialisation effect (dependency \<^verbatim>\<open>sdkOptions\<close>), guarded by the ref.\<close>

definition init_effect ::
  "bool \<Rightarrow> (string \<times> jsval) list \<Rightarrow> client_state \<Rightarrow> client_state" where
  "init_effect debug sdkOptions s =
     (if hasInit s then debug_log debug ''[MetamaskProvider] sdk already initialized'' [] s
      else s\<lparr>hasInit := True,
             initPending := Some (MetaMaskSDK sdkOptions),
             sdk_calls := sdk_calls s @ [SdkNew sdkOptions, SdkInit]\<rparr>)"

text \<open>The continuation of \<^verbatim>\<open>_sdk.init()\<close>.\<close>

definition init_then :: "sdk_env \<Rightarrow> MetaMaskSDK \<Rightarrow> client_state \<Rightarrow> client_state" where
  "init_then env k s =
     s\<lparr>sdk := Some k, ready := True, readOnlyCalls := hasReadOnlyRPCCalls env,
       initPending := None\<rparr>"

text \<open>
  The listener effect (dependencies \<^verbatim>\<open>trigger\<close>, \<^verbatim>\<open>sdk\<close>, \<^verbatim>\<open>ready\<close>). Its cleanup
  detaches the listeners of the previous run; the new run attaches them to the provider
  that is active now.
\<close>

definition listeners_effect ::
  "bool \<Rightarrow> sdk_env \<Rightarrow> client_state \<Rightarrow> client_state \<Rightarrow> client_state" where
  "listeners_effect debug env r s =
     (if \<not> ready r \<or> sdk r = None then s\<lparr>listeners := None\<rparr>
      else
        (let s1 = debug_log debug ''[MetamaskProvider] init SDK Provider listeners'' [] s;
             activeProvider = getProvider env
         in s1\<lparr>extensionActive := isExtensionActive env,
               connected := isConnected activeProvider,
               account := js_or (selectedAddress activeProvider) JUndefined,
               provider := Some (providerId activeProvider),
               listeners := Some (providerId activeProvider)\<rparr>))"

text \<open>The effect that attaches \<^verbatim>\<open>onProviderEvent\<close> (dependencies \<^verbatim>\<open>sdk\<close>, \<^verbatim>\<open>ready\<close>).\<close>

definition providerUpdate_effect :: "client_state \<Rightarrow> client_state \<Rightarrow> client_state" where
  "providerUpdate_effect r s = s\<lparr>providerUpdateListener := (ready r \<and> sdk r \<noteq> None)\<rparr>"

text \<open>
  After a render React runs, in the order of declaration, the effects whose dependencies
  differ from those of the previous render \<open>prev\<close> (compared by value, which is React's
  comparison for the strings and \<^verbatim>\<open>undefined\<close> that an account is). The listener effect sets
  \<^verbatim>\<open>account\<close>, so a second pass may run the balance effect; no effect changes
  \<^verbatim>\<open>trigger\<close>, \<^verbatim>\<open>sdk\<close> or \<^verbatim>\<open>ready\<close>, so two passes settle.
\<close>

definition effects_pass ::
  "bool \<Rightarrow> sdk_env \<Rightarrow> client_state \<Rightarrow> client_state \<Rightarrow> client_state" where
  "effects_pass debug env prev cur =
     (let s1 = (if account cur \<noteq> account prev then balance_effect debug cur cur else cur);
          s2 = (if (trigger cur, sdk cur, ready cur) \<noteq> (trigger prev, sdk prev, ready prev)
                then listeners_effect debug env cur s1 else s1);
          s3 = (if (sdk cur, ready cur) \<noteq> (sdk prev, ready prev)
                then providerUpdate_effect cur s2 else s2)
      in s3)"

definition commit ::
  "bool \<Rightarrow> sdk_env \<Rightarrow> client_state \<Rightarrow> client_state \<Rightarrow> client_state" where
  "commit debug env prev cur =
     (let s1 = effects_pass debug env prev cur in effects_pass debug env cur s1)"

text \<open>
  All four effects, as on mount and as on the second invocation of a strict-mode mount
  (state and refs are kept between the two).
\<close>

definition all_effects ::
  "bool \<Rightarrow> (string \<times> jsval) list \<Rightarrow> sdk_env \<Rightarrow> client_state \<Rightarrow> client_state" where
  "all_effects debug sdkOptions env r =
     (let s1 = balance_effect debug r r;
          s2 = init_effect debug sdkOptions s1;
          s3 = listeners_effect debug env r s2;
          s4 = providerUpdate_effect r s3
      in s4)"

definition mount :: "bool \<Rightarrow> (string \<times> jsval) list \<Rightarrow> sdk_env \<Rightarrow> client_state" where
  "mount debug sdkOptions env = all_effects debug sdkOptions env initial_state"


section \<open>The component as a transition system\<close>

datatype provider_event =
    Ev_initialized
  | Ev_connecting
  | Ev_connect jsval
  | Ev_disconnect jsval
  | Ev_accountsChanged jsval
  | Ev_chainChanged jsval

text \<open>
  What can happen to a mounted component: the effects run again, the promise of
  \<^verbatim>\<open>init()\<close> settles, a provider emits an event, the SDK emits a service status or a
  provider update, the \<open>i\<close>-th balance request in flight settles.
\<close>

datatype input =
    StrictModeReinvoke
  | InitResolved
  | InitRejected
  | ProviderEmit SDKProvider provider_event
  | ServiceStatus jsval
  | ProviderUpdate PROVIDER_UPDATE_TYPE
  | BalanceResolved nat jsval
  | BalanceRejected nat jsval

text \<open>A handler that raises leaves the state it had reached; the emitter gets the error.\<close>

definition settled :: "(js_error \<times> client_state) + client_state \<Rightarrow> client_state" where
  "settled x = (case x of Inl (e, s) \<Rightarrow> s | Inr s \<Rightarrow> s)"

fun provider_handler ::
  "bool \<Rightarrow> SDKProvider \<Rightarrow> provider_event \<Rightarrow> client_state \<Rightarrow> client_state" where
  "provider_handler debug p Ev_initialized s = onInitialized debug p s"
| "provider_handler debug p Ev_connecting s = onConnecting debug s"
| "provider_handler debug p (Ev_connect v) s = settled (onConnect debug v s)"
| "provider_handler debug p (Ev_disconnect v) s = onDisconnect debug v s"
| "provider_handler debug p (Ev_accountsChanged v) s = onAccountsChanged debug v s"
| "provider_handler debug p (Ev_chainChanged v) s = onChainChanged debug v s"

definition drop_nth :: "nat \<Rightarrow> 'a list \<Rightarrow> 'a list" where
  "drop_nth i xs = take i xs @ drop (Suc i) xs"

text \<open>
  One input, with the SDK as it is then. A provider's event reaches the handlers only
  while they are attached to that provider.
\<close>

fun step ::
  "bool \<Rightarrow> (string \<times> jsval) list \<Rightarrow> sdk_env \<times> input \<Rightarrow> client_state \<Rightarrow> client_state" where
  "step debug sdkOptions (env, StrictModeReinvoke) s =
     commit debug env s (all_effects debug sdkOptions env s)"
| "step debug sdkOptions (env, InitResolved) s =
     (case initPending s of
        None \<Rightarrow> s
      | Some k \<Rightarrow> commit debug env s (init_then env k s))"
| "step debug sdkOptions (env, InitRejected) s = s\<lparr>initPending := None\<rparr>"
| "step debug sdkOptions (env, ProviderEmit p ev) s =
     (if listeners s = Some (providerId p)
      then commit debug env s (provider_handler debug p ev s) else s)"
| "step debug sdkOptions (env, ServiceStatus v) s =
     (if listeners s \<noteq> None
      then commit debug env s (settled (onSDKStatusEvent debug v s)) else s)"
| "step debug sdkOptions (env, ProviderUpdate t) s =
     (if providerUpdateListener s
      then commit debug env s (onProviderEvent debug env t s) else s)"
| "step debug sdkOptions (env, BalanceResolved i v) s =
     (if i < length (pending s)
      then commit debug env s
             (balance_then debug (pending s ! i) v (s\<lparr>pending := drop_nth i (pending s)\<rparr>))
      else s)"
| "step debug sdkOptions (env, BalanceRejected i e) s =
     (if i < length (pending s)
      then commit debug env s
             (balance_catch (pending s ! i) e (s\<lparr>pending := drop_nth i (pending s)\<rparr>))
      else s)"

fun run ::
  "bool \<Rightarrow> (string \<times> jsval) list \<Rightarrow> client_state \<Rightarrow> (sdk_env \<times> input) list \<Rightarrow> client_state"
  where
  "run debug sdkOptions s [] = s"
| "run debug sdkOptions s (x # xs) = run debug sdkOptions (step debug sdkOptions x s) xs"

text \<open>The state of a component mounted under \<open>env0\<close> after the inputs \<open>xs\<close>.\<close>

definition after_inputs ::
  "bool \<Rightarrow> (string \<times> jsval) list \<Rightarrow> sdk_env \<Rightarrow> (sdk_env \<times> input) list \<Rightarrow> client_state"
  where
  "after_inputs debug sdkOptions env0 xs = run debug sdkOptions (mount debug sdkOptions env0) xs"


section \<open>\<^verbatim>\<open>MetaMaskProvider\<close>: the client-side wrapper\<close>

text \<open>
  What the wrapper returns: the children alone, or \<^verbatim>\<open>MetaMaskProviderClient\<close> with
  the wrapper's \<^verbatim>\<open>debug\<close> and \<^verbatim>\<open>sdkOptions\<close> around the children.
\<close>

datatype 'c rendered =
    ChildrenOnly 'c
  | ClientProvider bool "(string \<times> jsval) list" 'c

definition MetaMaskProvider ::
  "'c \<Rightarrow> (string \<times> jsval) list \<Rightarrow> bool \<Rightarrow> bool \<Rightarrow> 'c rendered" where
  "MetaMaskProvider children sdkOptions debug clientSide =
     (if clientSide then ClientProvider debug sdkOptions children else ChildrenOnly children)"

text \<open>
  The wrapper's own state and the instance of \<^verbatim>\<open>MetaMaskProviderClient\<close> under it,
  present once it has been rendered.
\<close>

record wrapper_state =
  clientSide :: bool
  client :: "client_state option"

definition wrapper_initial :: wrapper_state where
  "wrapper_initial = \<lparr> clientSide = False, client = None \<rparr>"

text \<open>Mounting or keeping the instance that a rendered tree asks for.\<close>

definition reconcile :: "sdk_env \<Rightarrow> 'c rendered \<Rightarrow> client_state option \<Rightarrow> client_state option"
  where
  "reconcile env tree inst =
     (case tree of
        ChildrenOnly c \<Rightarrow> None
      | ClientProvider debug sdkOptions c \<Rightarrow>
          (case inst of None \<Rightarrow> Some (mount debug sdkOptions env) | Some k \<Rightarrow> Some k))"

text \<open>
  The wrapper's effect \<^verbatim>\<open>setClientSide(true)\<close> and the render that follows it. Effects
  run in a browser only: a server render stops at \<open>wrapper_initial\<close>.
\<close>

definition wrapper_effect ::
  "'c \<Rightarrow> (string \<times> jsval) list \<Rightarrow> bool \<Rightarrow> sdk_env \<Rightarrow> wrapper_state \<Rightarrow> wrapper_state" where
  "wrapper_effect children sdkOptions debug env w =
     (let w1 = w\<lparr>clientSide := True\<rparr>
      in w1\<lparr>client := reconcile env
                         (MetaMaskProvider children sdkOptions debug (clientSide w1))
                         (client w1)\<rparr>)"

definition wrapper_sdk_calls :: "wrapper_state \<Rightarrow> sdk_call list" where
  "wrapper_sdk_calls w = (case client w of None \<Rightarrow> [] | Some k \<Rightarrow> sdk_calls k)"


section \<open>\<^verbatim>\<open>SelectModal\<close>: the chooser widget\<close>

record 'cb SelectModalProps =
  onClose :: 'cb
  link :: string
  connectWithExtension :: 'cb

text \<open>
  An \<^verbatim>\<open>onClick\<close> is one of the callbacks of the props or the arrow function
  \<^verbatim>\<open>() => setTab(n)\<close>.
\<close>

datatype 'cb handler = PropCallback 'cb | SetTab int

text \<open>
  The rendered tree. \<open>StyleRef n\<close> is the spread of \<^verbatim>\<open>styles.n\<close> (the style sheet is
  an import), \<open>StyleProp\<close> a style written in place, \<open>Comp\<close> an imported component
  rendered without props.
\<close>

datatype style_item = StyleRef string | StyleProp string string

datatype attr = Id string | ClassName string | Style "style_item list"

datatype 'cb vnode =
    El string "attr list" "'cb handler option" "'cb vnode list"
  | Txt string
  | Comp string

definition backdrop :: "'cb SelectModalProps \<Rightarrow> 'cb vnode" where
  "backdrop props =
     El ''div'' [Style [StyleRef ''backdrop'']] (Some (PropCallback (onClose props))) []"

definition closeButton :: "'cb SelectModalProps \<Rightarrow> 'cb vnode" where
  "closeButton props =
     El ''span'' [Style [StyleRef ''closeButton'']] (Some (PropCallback (onClose props)))
       [Comp ''CloseButton'']"

definition tabDesktop :: "int \<Rightarrow> 'cb vnode" where
  "tabDesktop tab =
     El ''div''
       [Style ([StyleRef ''tab''] @ (if tab = 1 then [StyleRef ''tabactive''] else [])
                @ [StyleRef ''flexItem''])]
       (Some (SetTab 1)) [Txt ''Desktop'']"

definition tabMobile :: "int \<Rightarrow> 'cb vnode" where
  "tabMobile tab =
     El ''div''
       [Style ([StyleRef ''tab''] @ (if tab = 2 then [StyleRef ''tabactive''] else [])
                @ [StyleRef ''flexItem''])]
       (Some (SetTab 2)) [Txt ''Mobile'']"

text \<open>The panel that holds the mount point of the QR code.\<close>

definition qrPanel :: "int \<Rightarrow> 'cb vnode" where
  "qrPanel tab =
     El ''div'' [Style [StyleProp ''display'' (if tab = 1 then ''none'' else ''block'')]] None
       [El ''div'' [Style [StyleRef ''flexContainer'']] None
          [El ''div''
             [Style [StyleProp ''textAlign'' ''center'', StyleProp ''marginTop'' ''4'',
                     StyleRef ''flexItem'']] None
             [El ''div'' [Id ''sdk-qrcode-container'', Style [StyleRef ''center'']] None [],
              El ''div'' [Style [StyleRef ''connectMobileText'']] None
                [Txt ''Scan to connect and sign with '', El ''br'' [] None [],
                 El ''span'' [Style [StyleRef ''blue'']] None
                   [El ''b'' [] None [Txt ''MetaMask mobile app'']]]]]]"

definition connectButton :: "'cb SelectModalProps \<Rightarrow> 'cb vnode" where
  "connectButton props =
     El ''button'' [Style [StyleRef ''button'']]
       (Some (PropCallback (connectWithExtension props)))
       [Comp ''ConnectIcon'',
        El ''span'' [Style [StyleRef ''installExtensionText'']] None
          [Txt ''Connect With MetaMask Extension'']]"

text \<open>The panel that holds the extension button.\<close>

definition extensionPanel :: "'cb SelectModalProps \<Rightarrow> int \<Rightarrow> 'cb vnode" where
  "extensionPanel props tab =
     El ''div'' [Style [StyleProp ''display'' (if tab = 2 then ''none'' else ''block'')]] None
       [El ''div''
          [Style [StyleProp ''display'' ''flex'', StyleProp ''justifyContent'' ''center'',
                  StyleProp ''height'' ''300'', StyleProp ''marginTop'' ''-20'']] None
          [Comp ''MetamaskExtensionImage''],
        El ''div'' [Style [StyleRef ''extensionLabel'']] None
          [Txt (''Take control of your crypto and explore the blockchain with the ''
                @ ''wallet trusted by over 30 million people worldwide'')],
        connectButton props]"

text \<open>The component: \<^verbatim>\<open>useState<number>(1)\<close> and the tree for a value of \<^verbatim>\<open>tab\<close>.\<close>

definition initial_tab :: int where
  "initial_tab = 1"

definition SelectModal :: "'cb SelectModalProps \<Rightarrow> int \<Rightarrow> 'cb vnode" where
  "SelectModal props tab =
     El ''WidgetWrapper'' [ClassName ''select-modal''] None
       [backdrop props,
        El ''div'' [Style [StyleRef ''modal'']] None
          [El ''div'' [Style [StyleRef ''closeButtonContainer'']] None
             [El ''div'' [Style [StyleRef ''right'']] None [closeButton props]],
           El ''div'' [Style [StyleRef ''logoContainer'']] None [Comp ''Logo''],
           El ''div'' [] None
             [El ''div'' [Style [StyleRef ''tabcontainer'']] None
                [El ''div'' [Style [StyleRef ''flexContainer'']] None
                   [tabDesktop tab, tabMobile tab]],
              qrPanel tab,
              extensionPanel props tab]]]"

text \<open>
  A click lands on the node at a path of child positions and bubbles to the root: the
  handlers met on the way run innermost first.
\<close>

fun nth_opt :: "'a list \<Rightarrow> nat \<Rightarrow> 'a option" where
  "nth_opt [] i = None"
| "nth_opt (x # xs) 0 = Some x"
| "nth_opt (x # xs) (Suc i) = nth_opt xs i"

fun own_handler :: "'cb vnode \<Rightarrow> 'cb handler list" where
  "own_handler (El tg as (Some h) cs) = [h]"
| "own_handler v = []"

fun child :: "'cb vnode \<Rightarrow> nat \<Rightarrow> 'cb vnode option" where
  "child (El tg as h cs) i = nth_opt cs i"
| "child v i = None"

fun handlers_on_path :: "nat list \<Rightarrow> 'cb vnode \<Rightarrow> 'cb handler list option" where
  "handlers_on_path [] v = Some (own_handler v)"
| "handlers_on_path (i # p) v =
     (case child v i of
        None \<Rightarrow> None
      | Some c \<Rightarrow>
          (case handlers_on_path p c of
             None \<Rightarrow> None
           | Some hs \<Rightarrow> Some (hs @ own_handler v)))"

fun node_at :: "nat list \<Rightarrow> 'cb vnode \<Rightarrow> 'cb vnode option" where
  "node_at [] v = Some v"
| "node_at (i # p) v = (case child v i of None \<Rightarrow> None | Some c \<Rightarrow> node_at p c)"

text \<open>The widget's state is \<^verbatim>\<open>tab\<close>; the callbacks invoked are collected in order.\<close>

fun run_handler :: "int \<times> 'cb list \<Rightarrow> 'cb handler \<Rightarrow> int \<times> 'cb list" where
  "run_handler (tab, calls) (PropCallback c) = (tab, calls @ [c])"
| "run_handler (tab, calls) (SetTab n) = (n, calls)"

definition click :: "'cb SelectModalProps \<Rightarrow> nat list \<Rightarrow> int \<Rightarrow> int \<times> 'cb list" where
  "click props path tab =
     (case handlers_on_path path (SelectModal props tab) of
        None \<Rightarrow> (tab, [])
      | Some hs \<Rightarrow> foldl run_handler (tab, []) hs)"

text \<open>Where the clickable elements and the two panels are in the tree.\<close>

definition backdrop_path :: "nat list" where "backdrop_path = [0]"
definition closeButton_path :: "nat list" where "closeButton_path = [1, 0, 0, 0]"
definition tabDesktop_path :: "nat list" where "tabDesktop_path = [1, 2, 0, 0, 0]"
definition tabMobile_path :: "nat list" where "tabMobile_path = [1, 2, 0, 0, 1]"
definition qrPanel_path :: "nat list" where "qrPanel_path = [1, 2, 1]"
definition extensionPanel_path :: "nat list" where "extensionPanel_path = [1, 2, 2]"
definition connectButton_path :: "nat list" where "connectButton_path = [1, 2, 2, 2]"

text \<open>The \<^verbatim>\<open>display\<close> style of a node, and the ids that occur in a tree.\<close>

fun display_of_items :: "style_item list \<Rightarrow> string option" where
  "display_of_items [] = None"
| "display_of_items (StyleProp k v # xs) =
     (case display_of_items xs of
        Some d \<Rightarrow> Some d
      | None \<Rightarrow> (if k = ''display'' then Some v else None))"
| "display_of_items (StyleRef n # xs) = display_of_items xs"

fun display_of_attrs :: "attr list \<Rightarrow> string option" where
  "display_of_attrs [] = None"
| "display_of_attrs (Style items # xs) =
     (case display_of_attrs xs of Some d \<Rightarrow> Some d | None \<Rightarrow> display_of_items items)"
| "display_of_attrs (a # xs) = display_of_attrs xs"

fun display_of :: "'cb vnode \<Rightarrow> string option" where
  "display_of (El tg as h cs) = display_of_attrs as"
| "display_of v = None"

fun ids_of_attrs :: "attr list \<Rightarrow> string list" where
  "ids_of_attrs [] = []"
| "ids_of_attrs (Id i # xs) = i # ids_of_attrs xs"
| "ids_of_attrs (a # xs) = ids_of_attrs xs"

fun ids_of :: "'cb vnode \<Rightarrow> string list" where
  "ids_of (El tg as h cs) = ids_of_attrs as @ concat (map ids_of cs)"
| "ids_of v = []"

fun all_handlers :: "'cb vnode \<Rightarrow> 'cb handler list" where
  "all_handlers (El tg as h cs) = own_handler (El tg as h []) @ concat (map all_handlers cs)"
| "all_handlers v = []"

text \<open>The greatest number of handlers on a path from the root.\<close>

fun nesting :: "'cb vnode \<Rightarrow> nat" where
  "nesting (El tg as h cs) = length (own_handler (El tg as h [])) + foldr max (map nesting cs) 0"
| "nesting v = 0"


section \<open>Sample environments\<close>

text \<open>
  An SDK whose provider \<open>0\<close> has no account yet, and the same SDK after the extension
  provider \<open>1\<close> has become the active one.
\<close>

definition sample_env :: sdk_env where
  "sample_env = \<lparr> isExtensionActive = False, hasReadOnlyRPCCalls = True,
     getProvider = \<lparr> providerId = 0, selectedAddress = JNull, providerChainId = JNull,
                     isConnected = False \<rparr> \<rparr>"


text \<open>A mounted component whose SDK has finished \<^verbatim>\<open>init()\<close>, with and without \<^verbatim>\<open>debug\<close>.\<close>

definition ready_state :: "bool \<Rightarrow> client_state" where
  "ready_state debug = after_inputs debug [] sample_env [(sample_env, InitResolved)]"


section \<open>Notions used in the statements\<close>

text \<open>
  The events that advance the connection: \<^verbatim>\<open>connect\<close>, \<^verbatim>\<open>accountsChanged\<close>,
  \<^verbatim>\<open>chainChanged\<close> and \<^verbatim>\<open>_initialized\<close>, whatever they carry.
\<close>

fun state_advancing :: "provider_event \<Rightarrow> bool" where
  "state_advancing (Ev_connect v) = True"
| "state_advancing (Ev_accountsChanged v) = True"
| "state_advancing (Ev_chainChanged v) = True"
| "state_advancing Ev_initialized = True"
| "state_advancing Ev_connecting = False"
| "state_advancing (Ev_disconnect v) = False"

text \<open>
  How a mounted component is wired: the initialisation effect has run, \<^verbatim>\<open>ready\<close> and
  \<^verbatim>\<open>sdk\<close> are set together, both groups of listeners are attached from then on, and an
  error has been recorded only by an attached listener.
\<close>

definition wired :: "client_state \<Rightarrow> bool" where
  "wired s =
     ((ready s = (sdk s \<noteq> None))
      \<and> (providerUpdateListener s = ready s)
      \<and> ((listeners s \<noteq> None) = ready s)
      \<and> (error s = JUndefined \<or> ready s)
      \<and> hasInit s)"


text \<open>No balance is published and no balance request is in flight.\<close>

definition idle :: "client_state \<Rightarrow> bool" where
  "idle s = (balance s = JUndefined \<and> pending s = [])"


text \<open>
  With \<^verbatim>\<open>debug\<close> on: the component after account \<^verbatim>\<open>0xA\<close> was announced, its balance
  request still in flight, and after that request resolved.
\<close>

definition fetching_state :: client_state where
  "fetching_state =
     step True [] (sample_env, ProviderEmit (getProvider sample_env)
                                 (Ev_accountsChanged (JArr [JStr ''0xA''])))
       (ready_state True)"

definition funded_state :: client_state where
  "funded_state = step True [] (sample_env, BalanceResolved 0 (JStr ''0x10'')) fetching_state"


text \<open>
  The calls that set the SDK up (its construction and \<^verbatim>\<open>init()\<close>), as opposed to the
  requests made through its provider.
\<close>

fun is_setup_call :: "sdk_call \<Rightarrow> bool" where
  "is_setup_call (ProviderRequest m ps) = False"
| "is_setup_call c = True"

definition setup_calls :: "client_state \<Rightarrow> sdk_call list" where
  "setup_calls s = filter is_setup_call (sdk_calls s)"


text \<open>Whether a handler is a \<^verbatim>\<open>setTab\<close>, and props for the examples.\<close>

fun is_SetTab :: "'cb handler \<Rightarrow> bool" where
  "is_SetTab (SetTab n) = True"
| "is_SetTab (PropCallback c) = False"

definition sample_props :: "nat SelectModalProps" where
  "sample_props = \<lparr> onClose = 0, link = ''metamask://connect?channel=1'',
                     connectWithExtension = 1 \<rparr>"


section \<open>What the effects and handlers leave alone\<close>

lemma debug_log_frame:
  "account (debug_log d m a s) = account s"
  "connected (debug_log d m a s) = connected s"
  "connecting (debug_log d m a s) = connecting s"
  "error (debug_log d m a s) = error s"
  "chainId (debug_log d m a s) = chainId s"
  "listeners (debug_log d m a s) = listeners s"
  "trigger (debug_log d m a s) = trigger s"
  "sdk (debug_log d m a s) = sdk s"
  "ready (debug_log d m a s) = ready s"
  "extensionActive (debug_log d m a s) = extensionActive s"
  "provider (debug_log d m a s) = provider s"
  "providerUpdateListener (debug_log d m a s) = providerUpdateListener s"
  "hasInit (debug_log d m a s) = hasInit s"
  "initPending (debug_log d m a s) = initPending s"
  "status (debug_log d m a s) = status s"
  "readOnlyCalls (debug_log d m a s) = readOnlyCalls s"
  "balance (debug_log d m a s) = balance s"
  "pending (debug_log d m a s) = pending s"
  "sdk_calls (debug_log d m a s) = sdk_calls s"
  by (simp_all add: debug_log_def)

lemma balance_effect_frame:
  "account (balance_effect d r s) = account s"
  "connected (balance_effect d r s) = connected s"
  "connecting (balance_effect d r s) = connecting s"
  "error (balance_effect d r s) = error s"
  "chainId (balance_effect d r s) = chainId s"
  "listeners (balance_effect d r s) = listeners s"
  "trigger (balance_effect d r s) = trigger s"
  "sdk (balance_effect d r s) = sdk s"
  "ready (balance_effect d r s) = ready s"
  "extensionActive (balance_effect d r s) = extensionActive s"
  "provider (balance_effect d r s) = provider s"
  "providerUpdateListener (balance_effect d r s) = providerUpdateListener s"
  "hasInit (balance_effect d r s) = hasInit s"
  "initPending (balance_effect d r s) = initPending s"
  "status (balance_effect d r s) = status s"
  "readOnlyCalls (balance_effect d r s) = readOnlyCalls s"
  "console (balance_effect d r s) = console s"
  by (simp_all add: balance_effect_def split: option.splits)

text \<open>
  When a handler leaves \<^verbatim>\<open>trigger\<close>, \<^verbatim>\<open>sdk\<close> and \<^verbatim>\<open>ready\<close> as they were, the only
  effect that can follow it is the balance effect.
\<close>

lemma commit_same_deps:
  "trigger cur = trigger prev \<Longrightarrow> sdk cur = sdk prev \<Longrightarrow> ready cur = ready prev \<Longrightarrow>
   commit debug env prev cur =
     (if account cur \<noteq> account prev then balance_effect debug cur cur else cur)"
  by (simp add: commit_def effects_pass_def balance_effect_def Let_def split: option.splits)

lemma provider_handler_frame:
  "trigger (provider_handler d p ev s) = trigger s"
  "sdk (provider_handler d p ev s) = sdk s"
  "ready (provider_handler d p ev s) = ready s"
  "listeners (provider_handler d p ev s) = listeners s"
  "balance (provider_handler d p ev s) = balance s"
  "pending (provider_handler d p ev s) = pending s"
  "sdk_calls (provider_handler d p ev s) = sdk_calls s"
  "hasInit (provider_handler d p ev s) = hasInit s"
  "providerUpdateListener (provider_handler d p ev s) = providerUpdateListener s"
  "initPending (provider_handler d p ev s) = initPending s"
  by (cases ev; simp add: onInitialized_def onConnecting_def onConnect_def onDisconnect_def
      onAccountsChanged_def onChainChanged_def settled_def get_prop_def debug_log_frame Let_def)+

lemma step_provider_event:
  "listeners s = Some (providerId p) \<Longrightarrow>
   step debug opts (env, ProviderEmit p ev) s =
     (let h = provider_handler debug p ev s
      in if account h \<noteq> account s then balance_effect debug h h else h)"
  by (simp add: commit_same_deps provider_handler_frame Let_def)

lemma run_append: "run debug opts s (xs @ ys) = run debug opts (run debug opts s xs) ys"
  by (induction xs arbitrary: s) simp_all


lemma listeners_effect_frame:
  "ready (listeners_effect d e r s) = ready s"
  "sdk (listeners_effect d e r s) = sdk s"
  "trigger (listeners_effect d e r s) = trigger s"
  "error (listeners_effect d e r s) = error s"
  "connecting (listeners_effect d e r s) = connecting s"
  "chainId (listeners_effect d e r s) = chainId s"
  "hasInit (listeners_effect d e r s) = hasInit s"
  "initPending (listeners_effect d e r s) = initPending s"
  "status (listeners_effect d e r s) = status s"
  "readOnlyCalls (listeners_effect d e r s) = readOnlyCalls s"
  "balance (listeners_effect d e r s) = balance s"
  "pending (listeners_effect d e r s) = pending s"
  "sdk_calls (listeners_effect d e r s) = sdk_calls s"
  "providerUpdateListener (listeners_effect d e r s) = providerUpdateListener s"
  by (simp_all add: listeners_effect_def debug_log_frame Let_def)

lemma providerUpdate_effect_frame:
  "ready (providerUpdate_effect r s) = ready s"
  "sdk (providerUpdate_effect r s) = sdk s"
  "trigger (providerUpdate_effect r s) = trigger s"
  "error (providerUpdate_effect r s) = error s"
  "connecting (providerUpdate_effect r s) = connecting s"
  "connected (providerUpdate_effect r s) = connected s"
  "chainId (providerUpdate_effect r s) = chainId s"
  "hasInit (providerUpdate_effect r s) = hasInit s"
  "initPending (providerUpdate_effect r s) = initPending s"
  "status (providerUpdate_effect r s) = status s"
  "readOnlyCalls (providerUpdate_effect r s) = readOnlyCalls s"
  "balance (providerUpdate_effect r s) = balance s"
  "pending (providerUpdate_effect r s) = pending s"
  "sdk_calls (providerUpdate_effect r s) = sdk_calls s"
  "account (providerUpdate_effect r s) = account s"
  "listeners (providerUpdate_effect r s) = listeners s"
  "extensionActive (providerUpdate_effect r s) = extensionActive s"
  "provider (providerUpdate_effect r s) = provider s"
  "console (providerUpdate_effect r s) = console s"
  by (simp_all add: providerUpdate_effect_def)

lemma effects_pass_frame:
  "ready (effects_pass d e prev cur) = ready cur"
  "sdk (effects_pass d e prev cur) = sdk cur"
  "trigger (effects_pass d e prev cur) = trigger cur"
  "error (effects_pass d e prev cur) = error cur"
  "connecting (effects_pass d e prev cur) = connecting cur"
  "chainId (effects_pass d e prev cur) = chainId cur"
  "hasInit (effects_pass d e prev cur) = hasInit cur"
  "initPending (effects_pass d e prev cur) = initPending cur"
  "status (effects_pass d e prev cur) = status cur"
  "readOnlyCalls (effects_pass d e prev cur) = readOnlyCalls cur"
  by (simp_all add: effects_pass_def Let_def listeners_effect_frame providerUpdate_effect_frame
      balance_effect_frame)

lemma commit_frame:
  "ready (commit d e prev cur) = ready cur"
  "sdk (commit d e prev cur) = sdk cur"
  "trigger (commit d e prev cur) = trigger cur"
  "error (commit d e prev cur) = error cur"
  "connecting (commit d e prev cur) = connecting cur"
  "chainId (commit d e prev cur) = chainId cur"
  "hasInit (commit d e prev cur) = hasInit cur"
  "initPending (commit d e prev cur) = initPending cur"
  "status (commit d e prev cur) = status cur"
  "readOnlyCalls (commit d e prev cur) = readOnlyCalls cur"
  by (simp_all add: commit_def Let_def effects_pass_frame)

text \<open>Whether the listener effect runs after a render, and whether it attaches.\<close>

lemma effects_pass_wiring:
  "listeners (effects_pass d e prev cur) =
     (if (trigger cur, sdk cur, ready cur) \<noteq> (trigger prev, sdk prev, ready prev)
      then (if \<not> ready cur \<or> sdk cur = None then None else Some (providerId (getProvider e)))
      else listeners cur)"
  "providerUpdateListener (effects_pass d e prev cur) =
     (if (sdk cur, ready cur) \<noteq> (sdk prev, ready prev)
      then (ready cur \<and> sdk cur \<noteq> None) else providerUpdateListener cur)"
  "account (effects_pass d e prev cur) =
     (if (trigger cur, sdk cur, ready cur) \<noteq> (trigger prev, sdk prev, ready prev)
         \<and> ready cur \<and> sdk cur \<noteq> None
      then js_or (selectedAddress (getProvider e)) JUndefined else account cur)"
  "connected (effects_pass d e prev cur) =
     (if (trigger cur, sdk cur, ready cur) \<noteq> (trigger prev, sdk prev, ready prev)
         \<and> ready cur \<and> sdk cur \<noteq> None
      then isConnected (getProvider e) else connected cur)"
  "extensionActive (effects_pass d e prev cur) =
     (if (trigger cur, sdk cur, ready cur) \<noteq> (trigger prev, sdk prev, ready prev)
         \<and> ready cur \<and> sdk cur \<noteq> None
      then isExtensionActive e else extensionActive cur)"
  "provider (effects_pass d e prev cur) =
     (if (trigger cur, sdk cur, ready cur) \<noteq> (trigger prev, sdk prev, ready prev)
         \<and> ready cur \<and> sdk cur \<noteq> None
      then Some (providerId (getProvider e)) else provider cur)"
  by (auto simp add: effects_pass_def Let_def listeners_effect_def providerUpdate_effect_def
      balance_effect_frame debug_log_frame)

lemma commit_wiring:
  "listeners (commit d e prev cur) =
     (if (trigger cur, sdk cur, ready cur) \<noteq> (trigger prev, sdk prev, ready prev)
      then (if \<not> ready cur \<or> sdk cur = None then None else Some (providerId (getProvider e)))
      else listeners cur)"
  "providerUpdateListener (commit d e prev cur) =
     (if (sdk cur, ready cur) \<noteq> (sdk prev, ready prev)
      then (ready cur \<and> sdk cur \<noteq> None) else providerUpdateListener cur)"
  "account (commit d e prev cur) =
     (if (trigger cur, sdk cur, ready cur) \<noteq> (trigger prev, sdk prev, ready prev)
         \<and> ready cur \<and> sdk cur \<noteq> None
      then js_or (selectedAddress (getProvider e)) JUndefined else account cur)"
  "connected (commit d e prev cur) =
     (if (trigger cur, sdk cur, ready cur) \<noteq> (trigger prev, sdk prev, ready prev)
         \<and> ready cur \<and> sdk cur \<noteq> None
      then isConnected (getProvider e) else connected cur)"
  "extensionActive (commit d e prev cur) =
     (if (trigger cur, sdk cur, ready cur) \<noteq> (trigger prev, sdk prev, ready prev)
         \<and> ready cur \<and> sdk cur \<noteq> None
      then isExtensionActive e else extensionActive cur)"
  "provider (commit d e prev cur) =
     (if (trigger cur, sdk cur, ready cur) \<noteq> (trigger prev, sdk prev, ready prev)
         \<and> ready cur \<and> sdk cur \<noteq> None
      then Some (providerId (getProvider e)) else provider cur)"
  unfolding commit_def Let_def
  by (simp_all add: effects_pass_wiring effects_pass_frame)


lemma onProviderEvent_frame:
  "ready (onProviderEvent d e t s) = ready s"
  "sdk (onProviderEvent d e t s) = sdk s"
  "trigger (onProviderEvent d e t s) = trigger s + 1"
  "listeners (onProviderEvent d e t s) = listeners s"
  "providerUpdateListener (onProviderEvent d e t s) = providerUpdateListener s"
  "hasInit (onProviderEvent d e t s) = hasInit s"
  "initPending (onProviderEvent d e t s) = initPending s"
  "balance (onProviderEvent d e t s) = balance s"
  "pending (onProviderEvent d e t s) = pending s"
  "sdk_calls (onProviderEvent d e t s) = sdk_calls s"
  "extensionActive (onProviderEvent d e t s) = extensionActive s"
  "error (onProviderEvent d e t s) = (if t = EXTENSION then JUndefined else error s)"
  "connecting (onProviderEvent d e t s) =
     (if t = TERMINATE \<or> t = EXTENSION then False else connecting s)"
  "connected (onProviderEvent d e t s) = (if t = EXTENSION then True else connected s)"
  "chainId (onProviderEvent d e t s) =
     (if t = EXTENSION then js_or (providerChainId (getProvider e)) JUndefined else chainId s)"
  "account (onProviderEvent d e t s) =
     (if t = EXTENSION then js_or (selectedAddress (getProvider e)) JUndefined else account s)"
  by (simp_all add: onProviderEvent_def Let_def debug_log_frame)

lemma onSDKStatusEvent_frame:
  "ready (settled (onSDKStatusEvent d v s)) = ready s"
  "sdk (settled (onSDKStatusEvent d v s)) = sdk s"
  "trigger (settled (onSDKStatusEvent d v s)) = trigger s"
  "account (settled (onSDKStatusEvent d v s)) = account s"
  "error (settled (onSDKStatusEvent d v s)) = error s"
  "listeners (settled (onSDKStatusEvent d v s)) = listeners s"
  "providerUpdateListener (settled (onSDKStatusEvent d v s)) = providerUpdateListener s"
  "hasInit (settled (onSDKStatusEvent d v s)) = hasInit s"
  "balance (settled (onSDKStatusEvent d v s)) = balance s"
  "pending (settled (onSDKStatusEvent d v s)) = pending s"
  "sdk_calls (settled (onSDKStatusEvent d v s)) = sdk_calls s"
  by (simp_all add: onSDKStatusEvent_def settled_def get_prop_def debug_log_frame)

lemma init_effect_frame:
  "ready (init_effect d opts s) = ready s"
  "sdk (init_effect d opts s) = sdk s"
  "trigger (init_effect d opts s) = trigger s"
  "account (init_effect d opts s) = account s"
  "error (init_effect d opts s) = error s"
  "listeners (init_effect d opts s) = listeners s"
  "providerUpdateListener (init_effect d opts s) = providerUpdateListener s"
  "balance (init_effect d opts s) = balance s"
  "pending (init_effect d opts s) = pending s"
  "hasInit (init_effect d opts s) = True"
  by (simp_all add: init_effect_def debug_log_frame)

lemma all_effects_frame:
  "ready (all_effects d opts e s) = ready s"
  "sdk (all_effects d opts e s) = sdk s"
  "trigger (all_effects d opts e s) = trigger s"
  "error (all_effects d opts e s) = error s"
  "hasInit (all_effects d opts e s) = True"
  "providerUpdateListener (all_effects d opts e s) = (ready s \<and> sdk s \<noteq> None)"
  "listeners (all_effects d opts e s) =
     (if \<not> ready s \<or> sdk s = None then None else Some (providerId (getProvider e)))"
  by (simp_all add: all_effects_def Let_def providerUpdate_effect_def listeners_effect_def
      init_effect_frame balance_effect_frame debug_log_frame)

lemma handler_error_set:
  "error (provider_handler d p ev s) = JUndefined \<or> error (provider_handler d p ev s) = error s
   \<or> (\<exists>v. ev = Ev_disconnect v)"
  by (cases ev)
     (simp_all add: onInitialized_def onConnecting_def onConnect_def onDisconnect_def
       onAccountsChanged_def onChainChanged_def settled_def get_prop_def debug_log_frame Let_def)

text \<open>The wiring holds in every state a mounted component can reach.\<close>

lemma wired_mount: "wired (mount debug opts env)"
  by (simp add: wired_def mount_def all_effects_frame) (simp add: initial_state_def)

lemma wired_step:
  assumes "wired s"
  shows "wired (step debug opts x s)"
proof -
  obtain env inp where x: "x = (env, inp)" by (cases x)
  show ?thesis
  proof (cases inp)
    case StrictModeReinvoke
    then show ?thesis
      using assms x
      by (auto simp add: wired_def commit_frame commit_wiring all_effects_frame)
  next
    case InitResolved
    then show ?thesis
      using assms x
      by (auto simp add: wired_def commit_frame commit_wiring init_then_def
          split: option.splits)
  next
    case InitRejected
    then show ?thesis using assms x by (auto simp add: wired_def)
  next
    case (ProviderEmit p ev)
    have "error (provider_handler debug p ev s) = JUndefined
          \<or> error (provider_handler debug p ev s) = error s \<or> listeners s \<noteq> None \<and> ready s
          \<or> listeners s \<noteq> Some (providerId p)"
      using handler_error_set[of debug p ev s] assms by (auto simp: wired_def)
    then show ?thesis
      using assms x ProviderEmit
      by (auto simp add: wired_def commit_frame commit_wiring provider_handler_frame)
  next
    case (ServiceStatus v)
    then show ?thesis
      using assms x
      by (auto simp add: wired_def commit_frame commit_wiring onSDKStatusEvent_frame)
  next
    case (ProviderUpdate t)
    then show ?thesis
      using assms x
      by (auto simp add: wired_def commit_frame commit_wiring onProviderEvent_frame)
  next
    case (BalanceResolved i v)
    then show ?thesis
      using assms x
      by (auto simp add: wired_def commit_frame commit_wiring balance_then_def debug_log_frame)
  next
    case (BalanceRejected i e)
    then show ?thesis
      using assms x
      by (auto simp add: wired_def commit_frame commit_wiring balance_catch_def)
  qed
qed

lemma wired_run: "wired s \<Longrightarrow> wired (run debug opts s xs)"
  by (induction xs arbitrary: s) (simp_all add: wired_step del: step.simps)

lemma wired_after_inputs: "wired (after_inputs debug opts env0 xs)"
  unfolding after_inputs_def by (rule wired_run) (rule wired_mount)


lemma init_then_frame:
  "balance (init_then e k s) = balance s"
  "pending (init_then e k s) = pending s"
  "sdk_calls (init_then e k s) = sdk_calls s"
  "hasInit (init_then e k s) = hasInit s"
  by (simp_all add: init_then_def)


section \<open>Accounts-changed events\<close>

lemma step_accountsChanged:
  assumes "listeners s = Some (providerId p)"
  shows "account (step debug opts (env, ProviderEmit p (Ev_accountsChanged l)) s) = opt_index0 l"
    and "connected (step debug opts (env, ProviderEmit p (Ev_accountsChanged l)) s) = True"
    and "connecting (step debug opts (env, ProviderEmit p (Ev_accountsChanged l)) s) = False"
    and "error (step debug opts (env, ProviderEmit p (Ev_accountsChanged l)) s) = JUndefined"
    and "listeners (step debug opts (env, ProviderEmit p (Ev_accountsChanged l)) s) = listeners s"
  using assms
  by (simp_all add: step_provider_event Let_def balance_effect_frame onAccountsChanged_def
      debug_log_frame del: step.simps)

lemma run_accountsChanged_listeners:
  "listeners s = Some (providerId p) \<Longrightarrow>
   listeners (run debug opts s
      (map (\<lambda>(e, l). (e, ProviderEmit p (Ev_accountsChanged l))) ls)) = Some (providerId p)"
proof (induction ls arbitrary: s)
  case Nil
  then show ?case by simp
next
  case (Cons x ls)
  obtain e l where x: "x = (e, l)" by (cases x)
  have "listeners (step debug opts (e, ProviderEmit p (Ev_accountsChanged l)) s)
          = Some (providerId p)"
    using Cons.prems step_accountsChanged(5)[OF Cons.prems] by simp
  then show ?case
    using Cons.IH x by (simp del: step.simps)
qed

text \<open>
  C1. While the listeners are attached to provider \<open>p\<close>, after any sequence of
  \<^verbatim>\<open>accountsChanged\<close> events of \<open>p\<close> that ends with the list \<open>L\<close>, the published state
  has \<^verbatim>\<open>account\<close> equal to \<open>L[0]\<close> (\<^verbatim>\<open>undefined\<close> for the empty list),
  \<^verbatim>\<open>connected\<close> true, \<^verbatim>\<open>connecting\<close> false and \<^verbatim>\<open>error\<close> unset. The state \<open>s\<close> the
  sequence starts from is arbitrary, and so are the payloads before the last. The handler
  alone gives the same four values from any state \<open>s0\<close>.
\<close>

theorem accountsChanged_publishes_first_account:
  assumes "listeners s = Some (providerId p)"
  shows "account (run debug opts s
             (map (\<lambda>(e, l). (e, ProviderEmit p (Ev_accountsChanged l))) (ls @ [(env, JArr L)])))
           = (case L of [] \<Rightarrow> JUndefined | a # _ \<Rightarrow> a)
       \<and> connected (run debug opts s
             (map (\<lambda>(e, l). (e, ProviderEmit p (Ev_accountsChanged l))) (ls @ [(env, JArr L)])))
           = True
       \<and> connecting (run debug opts s
             (map (\<lambda>(e, l). (e, ProviderEmit p (Ev_accountsChanged l))) (ls @ [(env, JArr L)])))
           = False
       \<and> error (run debug opts s
             (map (\<lambda>(e, l). (e, ProviderEmit p (Ev_accountsChanged l))) (ls @ [(env, JArr L)])))
           = JUndefined
       \<and> account (onAccountsChanged debug (JArr L) s0) = (case L of [] \<Rightarrow> JUndefined | a # _ \<Rightarrow> a)
       \<and> connected (onAccountsChanged debug (JArr L) s0) = True
       \<and> connecting (onAccountsChanged debug (JArr L) s0) = False
       \<and> error (onAccountsChanged debug (JArr L) s0) = JUndefined"
proof -
  let ?mid = "run debug opts s (map (\<lambda>(e, l). (e, ProviderEmit p (Ev_accountsChanged l))) ls)"
  have mid: "listeners ?mid = Some (providerId p)"
    using assms by (rule run_accountsChanged_listeners)
  have split: "run debug opts s
             (map (\<lambda>(e, l). (e, ProviderEmit p (Ev_accountsChanged l))) (ls @ [(env, JArr L)]))
        = step debug opts (env, ProviderEmit p (Ev_accountsChanged (JArr L))) ?mid"
    by (simp add: run_append del: step.simps)
  show ?thesis
    unfolding split using step_accountsChanged[OF mid, of debug opts env "JArr L"]
    by (simp add: onAccountsChanged_def)
qed

lemma ready_state_listeners:
  "listeners (ready_state debug) = Some (providerId (getProvider sample_env))"
  by (simp add: ready_state_def after_inputs_def mount_def all_effects_def sample_env_def
      initial_state_def balance_effect_def init_effect_def listeners_effect_def
      providerUpdate_effect_def init_then_def commit_def effects_pass_def Let_def
      debug_log_def js_or_def)

theorem accountsChanged_publishes_first_account_witness:
  "listeners (ready_state True) = Some (providerId (getProvider sample_env))
   \<and> account (run True [] (ready_state True)
        (map (\<lambda>(e, l). (e, ProviderEmit (getProvider sample_env) (Ev_accountsChanged l)))
           ([(sample_env, JArr [JStr ''0xA''])]
            @ [(sample_env, JArr [JStr ''0xB'', JStr ''0xC''])]))) = JStr ''0xB''
   \<and> error (run True [] (ready_state True)
        (map (\<lambda>(e, l). (e, ProviderEmit (getProvider sample_env) (Ev_accountsChanged l)))
           ([(sample_env, JArr [JStr ''0xA''])]
            @ [(sample_env, JArr [JStr ''0xB'', JStr ''0xC''])]))) = JUndefined"
  using accountsChanged_publishes_first_account
          [OF ready_state_listeners [of True], of True "[]"
              "[(sample_env, JArr [JStr ''0xA''])]" sample_env "[JStr ''0xB'', JStr ''0xC'']"]
        ready_state_listeners [of True]
  by simp


section \<open>Disconnect and the events that clear the error\<close>

lemma step_disconnect:
  assumes "listeners s = Some (providerId p)"
  shows "connected (step debug opts (env, ProviderEmit p (Ev_disconnect R)) s) = False"
    and "connecting (step debug opts (env, ProviderEmit p (Ev_disconnect R)) s) = False"
    and "error (step debug opts (env, ProviderEmit p (Ev_disconnect R)) s) = R"
    and "listeners (step debug opts (env, ProviderEmit p (Ev_disconnect R)) s) = listeners s"
  using assms
  by (simp_all add: step_provider_event Let_def balance_effect_frame onDisconnect_def
      debug_log_frame del: step.simps)

lemma nullish_iff: "nullish v = (v = JUndefined \<or> v = JNull)"
  by (cases v) simp_all

text \<open>
  Every state-advancing event clears the error, but for a \<^verbatim>\<open>connect\<close> that carries
  \<^verbatim>\<open>undefined\<close> or \<^verbatim>\<open>null\<close>.
\<close>

lemma handler_clears_error:
  assumes "state_advancing ev"
    and "ev \<noteq> Ev_connect JUndefined" and "ev \<noteq> Ev_connect JNull"
  shows "error (provider_handler debug p ev s) = JUndefined"
proof (cases ev)
  case (Ev_connect v)
  then have "\<not> nullish v" using assms(2,3) by (simp add: nullish_iff)
  then show ?thesis
    using Ev_connect by (simp add: onConnect_def settled_def get_prop_def Let_def)
qed (use assms(1) in \<open>simp_all add: onInitialized_def onAccountsChanged_def onChainChanged_def
       debug_log_frame Let_def\<close>)

lemma step_clears_error:
  assumes "listeners s = Some (providerId p)" and "state_advancing ev"
    and "ev \<noteq> Ev_connect JUndefined" and "ev \<noteq> Ev_connect JNull"
  shows "error (step debug opts (env, ProviderEmit p ev) s) = JUndefined"
  using assms
  by (simp add: step_provider_event Let_def balance_effect_frame handler_clears_error
      del: step.simps)

lemma disconnect_then_payload_event_clears:
  assumes "listeners s = Some (providerId p)" and "state_advancing ev"
    and "ev \<noteq> Ev_connect JUndefined" and "ev \<noteq> Ev_connect JNull"
  shows "error (run debug opts s
                  [(env, ProviderEmit p (Ev_disconnect R)), (env', ProviderEmit p ev)])
           = JUndefined"
proof -
  let ?d = "step debug opts (env, ProviderEmit p (Ev_disconnect R)) s"
  have l: "listeners ?d = Some (providerId p)"
    using step_disconnect(4)[OF assms(1)] assms(1) by simp
  have "error (step debug opts (env', ProviderEmit p ev) ?d) = JUndefined"
    using l assms(2,3,4) by (rule step_clears_error)
  then show ?thesis
    by (simp del: step.simps)
qed

lemma error_set_is_listening:
  "error (after_inputs debug opts env0 xs) \<noteq> JUndefined
   \<Longrightarrow> \<exists>pid. listeners (after_inputs debug opts env0 xs) = Some pid"
  using wired_after_inputs[of debug opts env0 xs] by (auto simp: wired_def)






section \<open>Chain-changed events\<close>

lemma step_chainChanged:
  assumes "listeners s = Some (providerId p)"
  shows "chainId (step debug opts (env, ProviderEmit p (Ev_chainChanged v)) s) =
           (if typeof v = ''object'' \<and> truthy (opt_prop v ''chainId'')
            then own_prop v ''chainId'' else v)"
    and "connected (step debug opts (env, ProviderEmit p (Ev_chainChanged v)) s) = True"
    and "connecting (step debug opts (env, ProviderEmit p (Ev_chainChanged v)) s) = False"
    and "error (step debug opts (env, ProviderEmit p (Ev_chainChanged v)) s) = JUndefined"
  using assms
  by (simp_all add: step_provider_event Let_def balance_effect_frame onChainChanged_def
      debug_log_frame del: step.simps)

text \<open>
  C4, as the code has it. While the listeners are attached to provider \<open>p\<close>, a
  \<^verbatim>\<open>chainChanged\<close> event with payload \<open>v\<close> sets \<^verbatim>\<open>chainId\<close> to \<open>v.chainId\<close> when
  \<^verbatim>\<open>typeof v\<close> is \<^verbatim>\<open>'object'\<close> and \<open>v.chainId\<close> is truthy, and to \<open>v\<close> itself in every
  other case (a string or number, \<^verbatim>\<open>null\<close>, an array, an object whose \<^verbatim>\<open>chainId\<close> is
  missing, empty or otherwise falsy); it sets \<^verbatim>\<open>connected\<close> true, \<^verbatim>\<open>connecting\<close> false
  and clears \<^verbatim>\<open>error\<close>.
\<close>

theorem chainChanged_normalises_guarded:
  assumes "listeners s = Some (providerId p)"
  shows "chainId (step debug opts (env, ProviderEmit p (Ev_chainChanged v)) s) =
           (if typeof v = ''object'' \<and> truthy (opt_prop v ''chainId'')
            then own_prop v ''chainId'' else v)
       \<and> chainId (onChainChanged debug v s) =
           (if typeof v = ''object'' \<and> truthy (opt_prop v ''chainId'')
            then own_prop v ''chainId'' else v)
       \<and> connected (step debug opts (env, ProviderEmit p (Ev_chainChanged v)) s) = True
       \<and> connecting (step debug opts (env, ProviderEmit p (Ev_chainChanged v)) s) = False
       \<and> error (step debug opts (env, ProviderEmit p (Ev_chainChanged v)) s) = JUndefined"
  using step_chainChanged[OF assms, of debug opts env v]
  by (simp add: onChainChanged_def Let_def debug_log_frame del: step.simps)

theorem chainChanged_normalises_guarded_witness:
  "listeners (ready_state False) = Some (providerId (getProvider sample_env))
   \<and> chainId (step False [] (sample_env, ProviderEmit (getProvider sample_env)
        (Ev_chainChanged (JObj [(''chainId'', JStr ''0x89''), (''networkVersion'', JStr ''137'')])))
        (ready_state False)) = JStr ''0x89''
   \<and> chainId (step False [] (sample_env, ProviderEmit (getProvider sample_env)
        (Ev_chainChanged (JStr ''0x1''))) (ready_state False)) = JStr ''0x1''"
  using chainChanged_normalises_guarded [OF ready_state_listeners [of False], of False "[]" sample_env
          "JObj [(''chainId'', JStr ''0x89''), (''networkVersion'', JStr ''137'')]"]
        chainChanged_normalises_guarded [OF ready_state_listeners [of False], of False "[]" sample_env
          "JStr ''0x1''"]
        ready_state_listeners [of False]
  by (simp add: opt_prop_def del: step.simps)

text \<open>
  C4 as the claim words it fails on an object whose \<^verbatim>\<open>chainId\<close> is falsy: the payload
  \<^verbatim>\<open>{chainId: null, networkVersion: '1'}\<close> is object-shaped, its \<^verbatim>\<open>chainId\<close> is
  \<^verbatim>\<open>null\<close>, and the handler stores the whole object.
\<close>

theorem chainChanged_object_without_chainId_counterexample:
  "typeof (JObj [(''chainId'', JNull), (''networkVersion'', JStr ''1'')]) = ''object''
   \<and> own_prop (JObj [(''chainId'', JNull), (''networkVersion'', JStr ''1'')]) ''chainId'' = JNull
   \<and> chainId (onChainChanged False (JObj [(''chainId'', JNull), (''networkVersion'', JStr ''1'')])
               (ready_state False))
       = JObj [(''chainId'', JNull), (''networkVersion'', JStr ''1'')]
   \<and> chainId (step False [] (sample_env, ProviderEmit (getProvider sample_env)
        (Ev_chainChanged (JObj [(''chainId'', JNull), (''networkVersion'', JStr ''1'')])))
        (ready_state False))
       \<noteq> own_prop (JObj [(''chainId'', JNull), (''networkVersion'', JStr ''1'')]) ''chainId''"
  using step_chainChanged(1) [OF ready_state_listeners [of False], of False "[]" sample_env
          "JObj [(''chainId'', JNull), (''networkVersion'', JStr ''1'')]"]
  by (simp add: opt_prop_def onChainChanged_def Let_def debug_log_def del: step.simps)


section \<open>Provider updates\<close>








section \<open>The balance with the diagnostic flag off\<close>

lemma balance_effect_no_debug:
  "balance (balance_effect False r s) = (if truthy (account r) then balance s else JUndefined)"
  "pending (balance_effect False r s) = pending s"
  "sdk_calls (balance_effect False r s) = sdk_calls s"
  by (simp_all add: balance_effect_def)

lemma effects_pass_no_debug:
  "balance cur = JUndefined \<Longrightarrow> balance (effects_pass False e prev cur) = JUndefined"
  "pending (effects_pass False e prev cur) = pending cur"
  by (simp_all add: effects_pass_def Let_def balance_effect_no_debug listeners_effect_frame
      providerUpdate_effect_frame)

lemma commit_no_debug:
  "balance cur = JUndefined \<Longrightarrow> balance (commit False e prev cur) = JUndefined"
  "pending (commit False e prev cur) = pending cur"
  by (simp_all add: commit_def Let_def effects_pass_no_debug)

lemma all_effects_no_debug:
  "balance s = JUndefined \<Longrightarrow> balance (all_effects False opts e s) = JUndefined"
  "pending (all_effects False opts e s) = pending s"
  by (simp_all add: all_effects_def Let_def providerUpdate_effect_frame listeners_effect_frame
      init_effect_frame balance_effect_no_debug)

lemma idle_step:
  assumes "idle s"
  shows "idle (step False opts x s)"
proof -
  obtain env inp where x: "x = (env, inp)" by (cases x)
  show ?thesis
    using assms x
    by (cases inp)
       (simp_all add: idle_def commit_no_debug all_effects_no_debug init_then_frame
          provider_handler_frame onSDKStatusEvent_frame onProviderEvent_frame
          split: option.splits)
qed

lemma idle_run: "idle s \<Longrightarrow> idle (run False opts s xs)"
  by (induction xs arbitrary: s) (simp_all add: idle_step del: step.simps)

lemma idle_mount: "idle (mount False opts env1)"
proof -
  have "balance initial_state = JUndefined" and "pending initial_state = []"
    by (simp_all add: initial_state_def)
  then show ?thesis
    by (simp add: idle_def mount_def all_effects_no_debug)
qed

text \<open>
  C7. With \<^verbatim>\<open>debug\<close> off, after any sequence of inputs to a mounted component (events
  of any provider with any payload, provider updates, settling promises, repeated
  effects) \<^verbatim>\<open>balance\<close> is unset, and no balance request has been issued.
\<close>

theorem balance_never_set_without_debug:
  "balance (after_inputs False opts env0 xs) = JUndefined
   \<and> pending (after_inputs False opts env0 xs) = []"
  using idle_run[OF idle_mount[of opts env0], of opts xs]
  by (simp add: after_inputs_def idle_def)


theorem balance_never_set_without_debug_witness:
  "balance (after_inputs False [] sample_env
      [(sample_env, InitResolved),
       (sample_env, ProviderEmit (getProvider sample_env)
                      (Ev_accountsChanged (JArr [JStr ''0xA''])))]) = JUndefined
   \<and> account (after_inputs False [] sample_env
      [(sample_env, InitResolved),
       (sample_env, ProviderEmit (getProvider sample_env)
                      (Ev_accountsChanged (JArr [JStr ''0xA''])))]) = JStr ''0xA''"
proof -
  have "account (after_inputs False [] sample_env
      [(sample_env, InitResolved),
       (sample_env, ProviderEmit (getProvider sample_env)
                      (Ev_accountsChanged (JArr [JStr ''0xA''])))]) = JStr ''0xA''"
    by code_simp
  then show ?thesis
    using balance_never_set_without_debug [of "[]" sample_env
      "[(sample_env, InitResolved),
       (sample_env, ProviderEmit (getProvider sample_env)
                      (Ev_accountsChanged (JArr [JStr ''0xA''])))]"]
    by simp
qed


section \<open>The balance effect: absent accounts and failed requests\<close>

lemma balance_effect_absent:
  "\<not> truthy (account r) \<Longrightarrow> balance_effect debug r s = s\<lparr>balance := JUndefined\<rparr>"
  by (simp add: balance_effect_def)

lemma effects_pass_balance:
  "balance (effects_pass d e prev cur) =
     (if account cur \<noteq> account prev then balance (balance_effect d cur cur) else balance cur)"
  by (simp add: effects_pass_def Let_def listeners_effect_frame providerUpdate_effect_frame)

lemma effects_pass_second:
  "account (effects_pass d e cur (effects_pass d e prev cur)) = account (effects_pass d e prev cur)"
  by (simp add: effects_pass_wiring effects_pass_frame)

lemma commit_clears_balance:
  assumes "account (commit d e prev cur) \<noteq> account prev"
    and "\<not> truthy (account (commit d e prev cur))"
  shows "balance (commit d e prev cur) = JUndefined"
proof -
  let ?s1 = "effects_pass d e prev cur"
  have acc: "account (commit d e prev cur) = account ?s1"
    by (simp add: commit_def Let_def effects_pass_second)
  show ?thesis
  proof (cases "account ?s1 = account cur")
    case True
    then have "account cur \<noteq> account prev" and "\<not> truthy (account cur)"
      using assms acc by simp_all
    then have "balance ?s1 = JUndefined"
      by (simp add: effects_pass_balance balance_effect_absent)
    then show ?thesis
      using True by (simp add: commit_def Let_def effects_pass_balance)
  next
    case False
    have "\<not> truthy (account ?s1)" using assms(2) acc by simp
    then show ?thesis
      using False by (simp add: commit_def Let_def effects_pass_balance balance_effect_absent)
  qed
qed

lemma step_clears_balance:
  assumes "account (step debug opts x s) \<noteq> account s"
    and "\<not> truthy (account (step debug opts x s))"
  shows "balance (step debug opts x s) = JUndefined"
proof -
  obtain env inp where x: "x = (env, inp)" by (cases x)
  show ?thesis
    using assms unfolding x
    by (cases inp) (auto simp add: commit_clears_balance split: option.splits if_splits)
qed

lemma step_balanceRejected:
  assumes "i < length (pending s)"
  shows "step debug opts (env, BalanceRejected i e) s =
           s\<lparr>pending := drop_nth i (pending s),
             console := console s
               @ [ConsoleWarn ''[MetamaskProvider] error retrieving balance of''
                    [pending s ! i, e]]\<rparr>"
  using assms by (simp add: commit_same_deps balance_catch_def)

text \<open>
  C8, as the code has it. No handler touches \<^verbatim>\<open>balance\<close>: the render that follows a
  handler publishes the balance that was there. When a step (the handler, that render and
  the effects after it) leaves \<^verbatim>\<open>account\<close> changed and absent, it leaves \<^verbatim>\<open>balance\<close>
  unset: the balance effect of that change clears it, and the effect run for an absent
  account does nothing else, so the clearing comes before any new request. A balance
  request that fails is logged with \<^verbatim>\<open>console.warn\<close> and swallowed: \<^verbatim>\<open>balance\<close> stays as
  it was (unset if it was unset), and \<^verbatim>\<open>error\<close>, \<^verbatim>\<open>connected\<close> and \<^verbatim>\<open>connecting\<close> are
  untouched.
\<close>

theorem account_absent_clears_balance_failure_swallowed:
  assumes "account (step debug opts x s) \<noteq> account s"
    and "\<not> truthy (account (step debug opts x s))"
    and "\<not> truthy (account r)"
    and "i < length (pending s')"
  shows "balance (provider_handler debug p ev s0) = balance s0
       \<and> balance (onProviderEvent debug env0 ty s0) = balance s0
       \<and> balance (step debug opts x s) = JUndefined
       \<and> balance_effect debug r s'' = s''\<lparr>balance := JUndefined\<rparr>
       \<and> step debug opts (env, BalanceRejected i e) s' =
           s'\<lparr>pending := drop_nth i (pending s'),
              console := console s'
                @ [ConsoleWarn ''[MetamaskProvider] error retrieving balance of''
                     [pending s' ! i, e]]\<rparr>
       \<and> balance (step debug opts (env, BalanceRejected i e) s') = balance s'
       \<and> error (step debug opts (env, BalanceRejected i e) s') = error s'
       \<and> connected (step debug opts (env, BalanceRejected i e) s') = connected s'
       \<and> connecting (step debug opts (env, BalanceRejected i e) s') = connecting s'"
  using step_clears_balance[OF assms(1,2)] balance_effect_absent[OF assms(3)]
        step_balanceRejected[OF assms(4)]
  by (simp add: provider_handler_frame onProviderEvent_frame del: step.simps)


theorem account_absent_clears_balance_failure_swallowed_witness:
  "account (step True [] (sample_env, ProviderEmit (getProvider sample_env)
                            (Ev_accountsChanged (JArr []))) funded_state)
     \<noteq> account funded_state
   \<and> \<not> truthy (account (step True [] (sample_env, ProviderEmit (getProvider sample_env)
                            (Ev_accountsChanged (JArr []))) funded_state))
   \<and> \<not> truthy (account initial_state)
   \<and> 0 < length (pending fetching_state)
   \<and> balance funded_state = JStr ''0x10''
   \<and> balance (provider_handler True (getProvider sample_env) (Ev_accountsChanged (JArr []))
                funded_state) = JStr ''0x10''
   \<and> balance (step True [] (sample_env, ProviderEmit (getProvider sample_env)
                            (Ev_accountsChanged (JArr []))) funded_state) = JUndefined
   \<and> balance (step True [] (sample_env, BalanceRejected 0 (JStr ''boom'')) fetching_state)
       = balance fetching_state
   \<and> error (step True [] (sample_env, BalanceRejected 0 (JStr ''boom'')) fetching_state)
       = error fetching_state"
proof -
  have h1: "account (step True [] (sample_env, ProviderEmit (getProvider sample_env)
                            (Ev_accountsChanged (JArr []))) funded_state)
              \<noteq> account funded_state"
    by code_simp
  have h2: "\<not> truthy (account (step True [] (sample_env, ProviderEmit (getProvider sample_env)
                            (Ev_accountsChanged (JArr []))) funded_state))"
    by code_simp
  have h3: "\<not> truthy (account initial_state)"
    by code_simp
  have h4: "0 < length (pending fetching_state)"
    by code_simp
  have h5: "balance funded_state = JStr ''0x10''"
    by code_simp
  show ?thesis
    using account_absent_clears_balance_failure_swallowed
            [OF h1 h2 h3 h4, where env = sample_env and e = "JStr ''boom''"
               and p = "getProvider sample_env" and ev = "Ev_accountsChanged (JArr [])"
               and ?s0.0 = funded_state]
          h1 h2 h3 h4 h5
    by (simp del: step.simps)
qed

text \<open>
  C8 as the claim words it fails in both halves. The account of a component that
  publishes the balance of \<^verbatim>\<open>0xA\<close> becomes absent: \<^verbatim>\<open>onAccountsChanged\<close> returns with
  \<^verbatim>\<open>account\<close> unset and \<^verbatim>\<open>balance\<close> still \<^verbatim>\<open>0x10\<close>, which is what the next render
  publishes, so the clearing is not synchronous with the change; only the effect after
  that render clears it. And after a change from \<^verbatim>\<open>0xA\<close> to \<^verbatim>\<open>0xB\<close> whose request
  fails, \<^verbatim>\<open>balance\<close> is still the balance of \<^verbatim>\<open>0xA\<close>, not unset.
\<close>

theorem balance_stale_after_handler_and_failed_fetch_counterexample:
  "balance funded_state = JStr ''0x10''
   \<and> account (onAccountsChanged True (JArr []) funded_state) = JUndefined
   \<and> balance (onAccountsChanged True (JArr []) funded_state) = JStr ''0x10''
   \<and> balance (onAccountsChanged True (JArr []) funded_state) \<noteq> JUndefined
   \<and> balance (step True [] (sample_env, ProviderEmit (getProvider sample_env)
                  (Ev_accountsChanged (JArr []))) funded_state) = JUndefined
   \<and> account (run True [] funded_state
      [(sample_env, ProviderEmit (getProvider sample_env)
                      (Ev_accountsChanged (JArr [JStr ''0xB'']))),
       (sample_env, BalanceRejected 0 (JStr ''boom''))]) = JStr ''0xB''
   \<and> pending (run True [] funded_state
      [(sample_env, ProviderEmit (getProvider sample_env)
                      (Ev_accountsChanged (JArr [JStr ''0xB''])))]) = [JStr ''0xB'']
   \<and> balance (run True [] funded_state
      [(sample_env, ProviderEmit (getProvider sample_env)
                      (Ev_accountsChanged (JArr [JStr ''0xB'']))),
       (sample_env, BalanceRejected 0 (JStr ''boom''))]) = JStr ''0x10''
   \<and> balance (run True [] funded_state
      [(sample_env, ProviderEmit (getProvider sample_env)
                      (Ev_accountsChanged (JArr [JStr ''0xB'']))),
       (sample_env, BalanceRejected 0 (JStr ''boom''))]) \<noteq> JUndefined"
  by code_simp


section \<open>One SDK instance, one initialisation\<close>

lemma setup_calls_balance_effect:
  "setup_calls (balance_effect d r s) = setup_calls s"
  by (simp add: setup_calls_def balance_effect_def split: option.splits)

lemma setup_calls_effects_pass:
  "setup_calls (effects_pass d e prev cur) = setup_calls cur"
  by (simp add: setup_calls_def effects_pass_def Let_def listeners_effect_frame
      providerUpdate_effect_frame setup_calls_balance_effect[unfolded setup_calls_def])

lemma setup_calls_commit:
  "setup_calls (commit d e prev cur) = setup_calls cur"
  by (simp add: commit_def Let_def setup_calls_effects_pass)

lemma init_effect_guarded:
  "hasInit s \<Longrightarrow>
   init_effect debug opts s = debug_log debug ''[MetamaskProvider] sdk already initialized'' [] s"
  by (simp add: init_effect_def)

lemma setup_calls_all_effects:
  "hasInit s \<Longrightarrow> setup_calls (all_effects d opts e s) = setup_calls s"
  by (simp add: setup_calls_def all_effects_def Let_def listeners_effect_frame
      providerUpdate_effect_frame init_effect_guarded debug_log_frame balance_effect_frame
      setup_calls_balance_effect[unfolded setup_calls_def])

lemma hasInit_commit: "hasInit (commit d e prev cur) = hasInit cur"
  by (rule commit_frame)

lemma setup_once_step:
  assumes "hasInit s"
  shows "hasInit (step debug opts x s) \<and> setup_calls (step debug opts x s) = setup_calls s"
proof -
  obtain env inp where x: "x = (env, inp)" by (cases x)
  have sc: "\<And>a b. sdk_calls a = sdk_calls b \<Longrightarrow> setup_calls a = setup_calls b"
    by (simp add: setup_calls_def)
  show ?thesis
  proof (cases inp)
    case StrictModeReinvoke
    then show ?thesis using assms x
      by (simp add: commit_frame setup_calls_commit setup_calls_all_effects all_effects_frame)
  next
    case InitResolved
    then show ?thesis using assms x
      by (auto simp add: commit_frame setup_calls_commit init_then_frame
          intro!: sc split: option.splits)
  next
    case InitRejected
    then show ?thesis using assms x by (simp add: setup_calls_def)
  next
    case (ProviderEmit p ev)
    then show ?thesis using assms x
      by (auto simp add: commit_frame setup_calls_commit provider_handler_frame intro!: sc)
  next
    case (ServiceStatus v)
    then show ?thesis using assms x
      by (auto simp add: commit_frame setup_calls_commit onSDKStatusEvent_frame intro!: sc)
  next
    case (ProviderUpdate t)
    then show ?thesis using assms x
      by (auto simp add: commit_frame setup_calls_commit onProviderEvent_frame intro!: sc)
  next
    case (BalanceResolved i v)
    then show ?thesis using assms x
      by (auto simp add: commit_frame setup_calls_commit balance_then_def debug_log_frame
          intro!: sc)
  next
    case (BalanceRejected i e)
    then show ?thesis using assms x
      by (auto simp add: commit_frame setup_calls_commit balance_catch_def intro!: sc)
  qed
qed

lemma setup_once_run:
  "hasInit s \<Longrightarrow> setup_calls (run debug opts s xs) = setup_calls s"
proof (induction xs arbitrary: s)
  case Nil
  then show ?case by simp
next
  case (Cons x xs)
  then show ?case
    using setup_once_step[OF Cons.prems, of debug opts x] by (simp del: step.simps)
qed

lemma mount_calls:
  "sdk_calls (mount debug opts env) = [SdkNew opts, SdkInit]"
  "hasInit (mount debug opts env)"
  by (simp_all add: mount_def all_effects_def Let_def initial_state_def balance_effect_def
      init_effect_def listeners_effect_def providerUpdate_effect_def)

lemma second_invocation:
  "all_effects debug opts' env' (mount debug opts env)
     = debug_log debug ''[MetamaskProvider] sdk already initialized'' [] (mount debug opts env)"
  by (simp add: mount_def all_effects_def Let_def initial_state_def balance_effect_def
      init_effect_def listeners_effect_def providerUpdate_effect_def debug_log_def)

text \<open>
  C6. Mounting constructs the SDK once and calls \<^verbatim>\<open>init()\<close> once. Running the effects a
  second time on the mounted component, as a strict-mode mount does, constructs nothing
  and calls nothing: the state is the one after the first run, with the line
  \<^verbatim>\<open>sdk already initialized\<close> on the console when \<^verbatim>\<open>debug\<close> is on. After any sequence of
  inputs, with the effects repeated any number of times in it, the construction and the
  call of \<^verbatim>\<open>init()\<close> are still the only set-up calls made.
\<close>

theorem sdk_constructed_and_initialised_once:
  "sdk_calls (mount debug opts env) = [SdkNew opts, SdkInit]
   \<and> all_effects debug opts' env' (mount debug opts env)
       = debug_log debug ''[MetamaskProvider] sdk already initialized'' []
           (mount debug opts env)
   \<and> sdk_calls (all_effects debug opts' env' (mount debug opts env)) = [SdkNew opts, SdkInit]
   \<and> setup_calls (after_inputs debug opts env xs) = [SdkNew opts, SdkInit]"
  using setup_once_run[OF mount_calls(2)[of debug opts env], of debug opts xs]
  by (simp add: second_invocation debug_log_frame mount_calls after_inputs_def setup_calls_def)

theorem sdk_constructed_and_initialised_once_witness:
  "all_effects False [] sample_env (mount False [] sample_env) = mount False [] sample_env
   \<and> sdk_calls (all_effects False [] sample_env (mount False [] sample_env))
       = [SdkNew [], SdkInit]
   \<and> setup_calls (after_inputs True [] sample_env
        [(sample_env, StrictModeReinvoke), (sample_env, InitResolved),
         (sample_env, StrictModeReinvoke)]) = [SdkNew [], SdkInit]"
  using sdk_constructed_and_initialised_once [of False "[]" sample_env "[]" sample_env "[]"]
        sdk_constructed_and_initialised_once [of True "[]" sample_env "[]" sample_env
          "[(sample_env, StrictModeReinvoke), (sample_env, InitResolved),
            (sample_env, StrictModeReinvoke)]"]
  by (simp add: debug_log_def)


section \<open>The client-side guard of \<^verbatim>\<open>MetaMaskProvider\<close>\<close>

text \<open>
  C9. The wrapper starts with \<^verbatim>\<open>clientSide\<close> false and no instance of
  \<^verbatim>\<open>MetaMaskProviderClient\<close>: it renders its children alone, whatever instance there
  was is unmounted, and no call has been made on the SDK. Only the wrapper's effect, which
  runs in a client, sets \<^verbatim>\<open>clientSide\<close>; the wrapper then renders
  \<^verbatim>\<open>MetaMaskProviderClient\<close> with its own \<^verbatim>\<open>debug\<close> and \<^verbatim>\<open>sdkOptions\<close> around the same
  children, and that component is mounted.
\<close>

theorem children_only_until_client_side:
  "clientSide wrapper_initial = False
   \<and> client wrapper_initial = None
   \<and> wrapper_sdk_calls wrapper_initial = []
   \<and> MetaMaskProvider children opts debug False = ChildrenOnly children
   \<and> reconcile env (MetaMaskProvider children opts debug False) inst = None
   \<and> MetaMaskProvider children opts debug True = ClientProvider debug opts children
   \<and> clientSide (wrapper_effect children opts debug env wrapper_initial) = True
   \<and> MetaMaskProvider children opts debug
        (clientSide (wrapper_effect children opts debug env wrapper_initial))
       = ClientProvider debug opts children
   \<and> client (wrapper_effect children opts debug env wrapper_initial)
       = Some (mount debug opts env)"
  by (simp add: wrapper_initial_def wrapper_sdk_calls_def MetaMaskProvider_def reconcile_def
      wrapper_effect_def)

theorem children_only_until_client_side_witness:
  "MetaMaskProvider ''app'' [] False (clientSide wrapper_initial) = ChildrenOnly ''app''
   \<and> wrapper_sdk_calls wrapper_initial = []
   \<and> MetaMaskProvider ''app'' [] False
        (clientSide (wrapper_effect ''app'' [] False sample_env wrapper_initial))
       = ClientProvider False [] ''app''
   \<and> wrapper_sdk_calls (wrapper_effect ''app'' [] False sample_env wrapper_initial)
       = [SdkNew [], SdkInit]"
  using children_only_until_client_side [of "''app''" "[]" False sample_env None]
        mount_calls(1) [of False "[]" sample_env]
  by (simp add: wrapper_sdk_calls_def)

section \<open>The chooser widget\<close>

lemma SelectModal_nodes:
  "node_at backdrop_path (SelectModal props tab) = Some (backdrop props)"
  "node_at closeButton_path (SelectModal props tab) = Some (closeButton props)"
  "node_at tabDesktop_path (SelectModal props tab) = Some (tabDesktop tab)"
  "node_at tabMobile_path (SelectModal props tab) = Some (tabMobile tab)"
  "node_at qrPanel_path (SelectModal props tab) = Some (qrPanel tab)"
  "node_at extensionPanel_path (SelectModal props tab) = Some (extensionPanel props tab)"
  "node_at connectButton_path (SelectModal props tab) = Some (connectButton props)"
  by (simp_all add: SelectModal_def backdrop_path_def closeButton_path_def tabDesktop_path_def
      tabMobile_path_def qrPanel_path_def extensionPanel_path_def connectButton_path_def
      extensionPanel_def eval_nat_numeral)

lemma SelectModal_clicks:
  "click props backdrop_path tab = (tab, [onClose props])"
  "click props closeButton_path tab = (tab, [onClose props])"
  "click props tabDesktop_path tab = (1, [])"
  "click props tabMobile_path tab = (2, [])"
  "click props connectButton_path tab = (tab, [connectWithExtension props])"
  by (simp_all add: click_def SelectModal_def backdrop_path_def closeButton_path_def
      tabDesktop_path_def tabMobile_path_def connectButton_path_def extensionPanel_def
      backdrop_def closeButton_def tabDesktop_def tabMobile_def connectButton_def
      eval_nat_numeral)

lemma SelectModal_handlers:
  "all_handlers (SelectModal props tab) =
     [PropCallback (onClose props), PropCallback (onClose props), SetTab 1, SetTab 2,
      PropCallback (connectWithExtension props)]"
  by (simp add: SelectModal_def backdrop_def closeButton_def tabDesktop_def tabMobile_def
      qrPanel_def extensionPanel_def connectButton_def)

lemma SelectModal_ids:
  "ids_of (SelectModal props tab) = [''sdk-qrcode-container'']"
  "ids_of (qrPanel tab :: 'a vnode) = [''sdk-qrcode-container'']"
  by (simp_all add: SelectModal_def backdrop_def closeButton_def tabDesktop_def tabMobile_def
      qrPanel_def extensionPanel_def connectButton_def)

lemma panel_display:
  "display_of (qrPanel tab :: 'a vnode) = Some (if tab = 1 then ''none'' else ''block'')"
  "display_of (extensionPanel props tab) = Some (if tab = 2 then ''none'' else ''block'')"
  by (simp_all add: qrPanel_def extensionPanel_def)

lemma nth_opt_mem: "nth_opt cs i = Some c \<Longrightarrow> c \<in> set cs"
  by (induction cs i rule: nth_opt.induct) auto

lemma own_handler_sub: "set (own_handler v) \<subseteq> set (all_handlers v)"
  by (cases v rule: own_handler.cases) auto

lemma handlers_on_path_sub:
  "handlers_on_path p v = Some hs \<Longrightarrow> set hs \<subseteq> set (all_handlers v)"
proof (induction p arbitrary: v hs)
  case Nil
  then show ?case using own_handler_sub[of v] by simp
next
  case (Cons i p)
  from Cons.prems obtain c hs' where c: "child v i = Some c"
    and hs': "handlers_on_path p c = Some hs'" and hs: "hs = hs' @ own_handler v"
    by (auto split: option.splits)
  from c obtain tg as h cs where v: "v = El tg as h cs" and n: "nth_opt cs i = Some c"
    by (cases v) auto
  have "set hs' \<subseteq> set (all_handlers c)" using Cons.IH[OF hs'] .
  moreover have "set (all_handlers c) \<subseteq> set (all_handlers v)"
    using nth_opt_mem[OF n] v by auto
  ultimately show ?case using hs own_handler_sub[of v] by auto
qed

lemma foldl_run_handler_tab:
  "fst (foldl run_handler (tab, calls) hs) = tab
   \<or> SetTab (fst (foldl run_handler (tab, calls) hs)) \<in> set hs"
proof (induction hs arbitrary: tab calls)
  case Nil
  then show ?case by simp
next
  case (Cons h hs)
  show ?case
  proof (cases h)
    case (PropCallback c)
    then show ?thesis using Cons.IH[of tab "calls @ [c]"] by auto
  next
    case (SetTab n)
    then show ?thesis using Cons.IH[of n calls] by auto
  qed
qed

lemma click_tab:
  "fst (click props path tab) = tab \<or> fst (click props path tab) = 1
   \<or> fst (click props path tab) = 2"
proof (cases "handlers_on_path path (SelectModal props tab)")
  case None
  then show ?thesis by (simp add: click_def)
next
  case (Some hs)
  have "set hs \<subseteq> set (all_handlers (SelectModal props tab))"
    using handlers_on_path_sub[OF Some] .
  then have "\<And>n. SetTab n \<in> set hs \<Longrightarrow> n = 1 \<or> n = 2"
    by (auto simp add: SelectModal_handlers)
  then show ?thesis
    using foldl_run_handler_tab[of tab "[]" hs] Some by (auto simp add: click_def)
qed

lemma nth_opt_if:
  "nth_opt (x # xs) i = (if i = 0 then Some x else nth_opt xs (i - 1))"
  by (cases i) simp_all

lemma handler_owner:
  "handlers_on_path p v = Some hs \<Longrightarrow> h \<in> set hs \<Longrightarrow>
   \<exists>k n. k \<le> length p \<and> node_at (take k p) v = Some n \<and> h \<in> set (own_handler n)"
proof (induction p arbitrary: v hs)
  case Nil
  then show ?case by auto
next
  case (Cons i p)
  from Cons.prems(1) obtain c hs' where c: "child v i = Some c"
    and hs': "handlers_on_path p c = Some hs'" and hs: "hs = hs' @ own_handler v"
    by (auto split: option.splits)
  show ?case
  proof (cases "h \<in> set hs'")
    case True
    from Cons.IH[OF hs' True] obtain k n where
      "k \<le> length p" "node_at (take k p) c = Some n" "h \<in> set (own_handler n)" by blast
    then have "Suc k \<le> length (i # p) \<and> node_at (take (Suc k) (i # p)) v = Some n
               \<and> h \<in> set (own_handler n)"
      using c by simp
    then show ?thesis by blast
  next
    case False
    then have "h \<in> set (own_handler v)" using Cons.prems(2) hs by simp
    then have "0 \<le> length (i # p) \<and> node_at (take 0 (i # p)) v = Some v
               \<and> h \<in> set (own_handler v)" by simp
    then show ?thesis by blast
  qed
qed

lemma node_at_leaf:
  "node_at p (Txt s) = (if p = [] then Some (Txt s) else None)"
  "node_at p (Comp s) = (if p = [] then Some (Comp s) else None)"
  "node_at p (El tg as h []) = (if p = [] then Some (El tg as h []) else None)"
  by (cases p; simp)+

lemma node_at_cons:
  "node_at p (El tg as h (c # cs)) =
     (case p of [] \<Rightarrow> Some (El tg as h (c # cs))
      | i # q \<Rightarrow> if i = 0 then node_at q c else node_at ((i - 1) # q) (El tg as h cs))"
  by (cases p; simp add: nth_opt_if split: nat.splits)

lemma setTab_sites:
  "node_at q (SelectModal props tab) = Some n \<Longrightarrow> SetTab m \<in> set (own_handler n) \<Longrightarrow>
   (q = tabDesktop_path \<and> m = 1) \<or> (q = tabMobile_path \<and> m = 2)"
  by (auto simp add: SelectModal_def backdrop_def closeButton_def tabDesktop_def tabMobile_def
      qrPanel_def extensionPanel_def connectButton_def node_at_cons node_at_leaf
      tabDesktop_path_def tabMobile_path_def
      split: list.splits if_splits)


lemma take_prefix_of_site:
  assumes "take k path = q" and "length q = 5"
  shows "take 5 path = q"
proof -
  have "min k (length path) = 5" using assms by (metis length_take min.commute)
  then have "5 \<le> k" by simp
  then have "take 5 (take k path) = take 5 path" by (simp add: min_def)
  then show ?thesis using assms by simp
qed

lemma click_changes_tab_only_at_selectors:
  assumes "fst (click props path tab) \<noteq> tab"
  shows "(take 5 path = tabDesktop_path \<and> fst (click props path tab) = 1)
       \<or> (take 5 path = tabMobile_path \<and> fst (click props path tab) = 2)"
proof (cases "handlers_on_path path (SelectModal props tab)")
  case None
  then show ?thesis using assms by (simp add: click_def)
next
  case (Some hs)
  let ?t = "fst (click props path tab)"
  have "SetTab ?t \<in> set hs"
    using foldl_run_handler_tab[of tab "[]" hs] Some assms by (auto simp add: click_def)
  from handler_owner[OF Some this] obtain k n where
    n: "node_at (take k path) (SelectModal props tab) = Some n"
    and h: "SetTab ?t \<in> set (own_handler n)" by blast
  from setTab_sites[OF n h]
  have "(take k path = tabDesktop_path \<and> ?t = 1) \<or> (take k path = tabMobile_path \<and> ?t = 2)" .
  then show ?thesis
    using take_prefix_of_site[of k path tabDesktop_path]
          take_prefix_of_site[of k path tabMobile_path]
    by (auto simp add: tabDesktop_path_def tabMobile_path_def)
qed

lemma tab_labels:
  "node_at (tabDesktop_path @ [0]) (SelectModal props tab) = Some (Txt ''Desktop'')"
  "node_at (tabMobile_path @ [0]) (SelectModal props tab) = Some (Txt ''Mobile'')"
  by (simp_all add: SelectModal_def tabDesktop_path_def tabMobile_path_def tabDesktop_def
      tabMobile_def eval_nat_numeral)

text \<open>
  C5, as the code has it. \<^verbatim>\<open>tab\<close> starts at 1. A click anywhere in the widget changes
  \<^verbatim>\<open>tab\<close> only when it lands on or inside one of the two tab selectors, to 1 for the
  selector labelled Desktop and to 2 for the one labelled Mobile. A click on the backdrop
  or on the close button calls \<^verbatim>\<open>onClose\<close> once and leaves \<^verbatim>\<open>tab\<close> as it is. With
  \<^verbatim>\<open>tab\<close> at 1 (Desktop) the panel with the extension button is shown and the panel with
  the QR mount point is hidden; with \<^verbatim>\<open>tab\<close> at 2 (Mobile) it is the other way round.
\<close>

theorem tab_changes_only_by_selectors_close_calls_onClose:
  "initial_tab = 1
   \<and> (fst (click (props :: 'a SelectModalProps) path tab) \<noteq> tab \<longrightarrow>
        (take 5 path = tabDesktop_path \<and> fst (click props path tab) = 1)
        \<or> (take 5 path = tabMobile_path \<and> fst (click props path tab) = 2))
   \<and> click props tabDesktop_path tab = (1, [])
   \<and> click props tabMobile_path tab = (2, [])
   \<and> click props backdrop_path tab = (tab, [onClose props])
   \<and> click props closeButton_path tab = (tab, [onClose props])
   \<and> node_at (tabDesktop_path @ [0]) (SelectModal props tab) = Some (Txt ''Desktop'')
   \<and> node_at (tabMobile_path @ [0]) (SelectModal props tab) = Some (Txt ''Mobile'')
   \<and> node_at qrPanel_path (SelectModal props tab) = Some (qrPanel tab)
   \<and> node_at extensionPanel_path (SelectModal props tab) = Some (extensionPanel props tab)
   \<and> ids_of (qrPanel tab :: 'a vnode) = [''sdk-qrcode-container'']
   \<and> node_at connectButton_path (SelectModal props tab) = Some (connectButton props)
   \<and> display_of (qrPanel tab :: 'a vnode) = Some (if tab = 1 then ''none'' else ''block'')
   \<and> display_of (extensionPanel props tab) = Some (if tab = 2 then ''none'' else ''block'')"
  using click_changes_tab_only_at_selectors[of props path tab]
  by (simp add: initial_tab_def SelectModal_clicks tab_labels SelectModal_nodes SelectModal_ids
      panel_display)

theorem tab_changes_only_by_selectors_close_calls_onClose_witness:
  "fst (click sample_props (tabMobile_path @ [0]) 1) \<noteq> 1
   \<and> take 5 (tabMobile_path @ [0]) = tabMobile_path
   \<and> fst (click sample_props (tabMobile_path @ [0]) 1) = 2
   \<and> click sample_props backdrop_path 2 = (2, [0])
   \<and> click sample_props closeButton_path 2 = (2, [0])
   \<and> display_of (qrPanel 2 :: nat vnode) = Some ''block''
   \<and> display_of (extensionPanel sample_props 2) = Some ''none''"
proof -
  note moved = tab_changes_only_by_selectors_close_calls_onClose
                 [of sample_props "tabMobile_path @ [0]" 1]
  note closed = tab_changes_only_by_selectors_close_calls_onClose [of sample_props "[]" 2]
  have c: "fst (click sample_props (tabMobile_path @ [0]) 1) \<noteq> 1"
    by code_simp
  have p: "take 5 (tabMobile_path @ [0]) = tabMobile_path"
    by (simp add: tabMobile_path_def)
  have "take 5 (tabMobile_path @ [0]) \<noteq> tabDesktop_path"
    by (simp add: tabMobile_path_def tabDesktop_path_def)
  with moved c have m: "fst (click sample_props (tabMobile_path @ [0]) 1) = 2"
    by blast
  have o: "onClose sample_props = 0"
    by (simp add: sample_props_def)
  have b: "click sample_props backdrop_path 2 = (2, [0])"
    using closed o by simp
  have cb: "click sample_props closeButton_path 2 = (2, [0])"
    using closed o by simp
  have d: "display_of (qrPanel 2 :: nat vnode) = Some ''block''"
    using closed by simp
  have e: "display_of (extensionPanel sample_props 2) = Some ''none''"
    using closed by simp
  show ?thesis using c p m b cb d e by blast
qed

text \<open>
  C5 as the claim words it fails on which tab is which: at the initial \<^verbatim>\<open>tab\<close> 1 the
  panel that holds \<^verbatim>\<open>sdk-qrcode-container\<close> has \<^verbatim>\<open>display: none\<close> and the panel that
  holds the extension button is displayed, so tab 1 is not the QR tab and tab 2 is not the
  extension tab.
\<close>

theorem tab_one_hides_the_qr_panel_counterexample:
  "initial_tab = 1
   \<and> node_at qrPanel_path (SelectModal sample_props initial_tab) = Some (qrPanel initial_tab)
   \<and> ids_of (qrPanel initial_tab :: nat vnode) = [''sdk-qrcode-container'']
   \<and> display_of (qrPanel initial_tab :: nat vnode) = Some ''none''
   \<and> node_at extensionPanel_path (SelectModal sample_props initial_tab)
       = Some (extensionPanel sample_props initial_tab)
   \<and> node_at connectButton_path (SelectModal sample_props initial_tab)
       = Some (connectButton sample_props)
   \<and> display_of (extensionPanel sample_props initial_tab) = Some ''block''
   \<and> display_of (qrPanel 2 :: nat vnode) = Some ''block''
   \<and> display_of (extensionPanel sample_props 2) = Some ''none''"
  by (simp add: initial_tab_def SelectModal_nodes SelectModal_ids panel_display)

text \<open>
  C10. The tree the widget renders and what a click does are the same for any two values
  of \<^verbatim>\<open>link\<close>: the widget never reads the prop. The one element with an id is the
  mount point \<^verbatim>\<open>sdk-qrcode-container\<close>, left empty for an external renderer.
\<close>

theorem link_prop_is_never_read:
  "SelectModal (props\<lparr>link := l1\<rparr>) tab = SelectModal (props\<lparr>link := l2\<rparr>) tab
   \<and> click (props\<lparr>link := l1\<rparr>) path tab = click (props\<lparr>link := l2\<rparr>) path tab
   \<and> ids_of (SelectModal props tab) = [''sdk-qrcode-container'']"
proof -
  have "SelectModal (props\<lparr>link := l1\<rparr>) tab = SelectModal (props\<lparr>link := l2\<rparr>) tab"
    by (simp add: SelectModal_def backdrop_def closeButton_def extensionPanel_def
        connectButton_def)
  then show ?thesis
    by (simp add: click_def SelectModal_ids)
qed

theorem link_prop_is_never_read_witness:
  "SelectModal sample_props 1 = SelectModal (sample_props\<lparr>link := ''other''\<rparr>) 1
   \<and> click sample_props tabMobile_path 1 = click (sample_props\<lparr>link := ''other''\<rparr>) tabMobile_path 1
   \<and> link sample_props \<noteq> ''other''"
  using link_prop_is_never_read [where props = sample_props and ?l1.0 = "link sample_props"
          and ?l2.0 = "''other''" and tab = 1 and path = tabMobile_path]
  by (simp add: sample_props_def)

end
